theory Spec2Isabelle
  imports Main
begin

section \<open>Data model\<close>

text \<open>
  The \<^verbatim>\<open>Vehicle\<close> interface of \<^verbatim>\<open>teslaService.ts\<close>. The fields \<^verbatim>\<open>id\<close> and
  \<^verbatim>\<open>state\<close> carry the suffix \<open>_v\<close>. The numeric \<^verbatim>\<open>vehicle_id\<close> is an integer
  (a value that JavaScript prints in plain decimal notation). The open-ended bag of further
  telemetry fields is the record's extension slot.
\<close>

record vehicle =
  id_v :: string
  vin :: string
  display_name :: string
  state_v :: string
  vehicle_id :: int

text \<open>
  A JavaScript number as far as the token expiry needs it: an integer number of
  milliseconds, or \<^verbatim>\<open>NaN\<close>, which is what \<^verbatim>\<open>Date.now() + undefined * 1000\<close> gives.
\<close>

datatype jsnum = Num int | NaN

text \<open>\<^verbatim>\<open>x * 1000\<close> for a field \<^verbatim>\<open>x\<close> of a response that may be absent.\<close>

fun js_times :: "int option \<Rightarrow> int \<Rightarrow> jsnum" where
  "js_times None k = NaN"
| "js_times (Some n) k = Num (n * k)"

text \<open>\<^verbatim>\<open>Date.now() + y\<close>.\<close>

fun js_plus :: "int \<Rightarrow> jsnum \<Rightarrow> jsnum" where
  "js_plus t NaN = NaN"
| "js_plus t (Num n) = Num (t + n)"

text \<open>\<^verbatim>\<open>Date.now() >= y\<close>: every comparison with \<^verbatim>\<open>NaN\<close> is false.\<close>

fun js_ge :: "int \<Rightarrow> jsnum \<Rightarrow> bool" where
  "js_ge t NaN = False"
| "js_ge t (Num n) = (n \<le> t)"

text \<open>
  Truthiness of a value that is a string, \<^verbatim>\<open>undefined\<close> or \<^verbatim>\<open>null\<close>:
  \<^verbatim>\<open>!x\<close> holds for an absent value and for the empty string.
\<close>

fun truthy :: "string option \<Rightarrow> bool" where
  "truthy None = False"
| "truthy (Some s) = (s \<noteq> [])"

text \<open>\<^verbatim>\<open>a || b\<close> on strings.\<close>

definition or_else :: "string \<Rightarrow> string \<Rightarrow> string" where
  "or_else a b = (if a = [] then b else a)"

subsection \<open>Printing numbers\<close>

definition digit_char :: "nat \<Rightarrow> char" where
  "digit_char d = ''0123456789'' ! d"

function string_of_nat :: "nat \<Rightarrow> string" where
  "string_of_nat n =
     (if n < 10 then [digit_char n] else string_of_nat (n div 10) @ [digit_char (n mod 10)])"
  by pat_completeness auto
termination
  by (relation "measure (\<lambda>n. n)") auto

declare string_of_nat.simps [simp del]

text \<open>\<^verbatim>\<open>String(n)\<close> and \<^verbatim>\<open>`${n}`\<close> for an integer \<^verbatim>\<open>n\<close>.\<close>

definition String_of_int :: "int \<Rightarrow> string" where
  "String_of_int i = (if i < 0 then CHR ''-'' # string_of_nat (nat (- i)) else string_of_nat (nat i))"

subsection \<open>The outside world\<close>

text \<open>
  What axios throws: a message, and the response (status and body) when the server
  answered with a status outside 2xx; no response on a network failure.
\<close>

datatype axios_error = AxiosError (err_message: string) (err_response: "(nat \<times> string) option")

text \<open>
  What a 2xx answer carries as \<^verbatim>\<open>response.data\<close>: nothing (\<^verbatim>\<open>null\<close> or \<^verbatim>\<open>undefined\<close>,
  on which reading a property throws a \<^verbatim>\<open>TypeError\<close>), or a value whose properties can be
  read. A property that may be missing is an option.
\<close>

datatype 'a body = Null_body | Body 'a

record token_response =
  access_token :: "string option"
  expires_in :: "int option"

type_synonym vehicles_response = "vehicle list option"

type_synonym wake_response = "vehicle option"

text \<open>
  What the process has done so far: the HTTP requests it sent, and (as instrumentation,
  with no counterpart in the source) the calls of the two public methods of the service.
\<close>

datatype event =
    POST_token string string string
  | GET_vehicles string
  | POST_wake_up string string
  | Call_getVehicles
  | Call_wakeUp string

text \<open>
  Everything an operation reads from outside the process: the clock, the environment
  variables and the remote endpoints. The clock and the endpoints may answer differently
  as the history of events grows, so a clock that advances while a request is awaited and a
  server that answers two requests of one operation differently are both covered.
\<close>

record ctx =
  clock :: "event list \<Rightarrow> int"
  TESLA_CLIENT_ID :: "string option"
  TESLA_CLIENT_SECRET :: "string option"
  TESLA_REFRESH_TOKEN :: "string option"
  token_endpoint :: "event list \<Rightarrow> axios_error + token_response body"
  vehicles_endpoint :: "event list \<Rightarrow> axios_error + vehicles_response body"
  wake_endpoint :: "event list \<Rightarrow> axios_error + wake_response body"

text \<open>
  The state of the process: the private fields of the \<^verbatim>\<open>TeslaService\<close> singleton,
  the two module-level variables of the server, and the history.
\<close>

record world =
  accessToken :: "string option"
  tokenExpiration :: jsnum
  isRegistered :: bool
  vehiclesCache :: "vehicle list"
  lastVehicleFetch :: int
  trace :: "event list"

text \<open>
  The errors the code throws, one constructor for each \<^verbatim>\<open>throw\<close>, named after its
  message. An error whose message embeds another error's message carries that error.
  \<open>Cannot_read_property p\<close> is the \<^verbatim>\<open>TypeError\<close> of reading the property \<open>p\<close> of
  \<^verbatim>\<open>null\<close>.
\<close>

datatype error =
    Env_not_set string
  | Request_failed axios_error
  | Cannot_read_property string
  | Not_registered
  | Failed_to_authorize string
  | Could_not_obtain_access_token
  | Failed_to_fetch_vehicles
  | Failed_to_wake_up_vehicle error
  | Vehicle_ID_is_required
  | Vehicle_not_found string
  | Unknown_tool

section \<open>The service (teslaService.ts)\<close>

text \<open>\<^verbatim>\<open>error.response?.data || error.message\<close> in the catch block of \<^verbatim>\<open>authorize\<close>.\<close>

fun errorDetails :: "error \<Rightarrow> string" where
  "errorDetails (Env_not_set name) = name @ '' is not set in environment variables''"
| "errorDetails (Request_failed (AxiosError msg None)) = msg"
| "errorDetails (Request_failed (AxiosError msg (Some (status, body)))) = or_else body msg"
| "errorDetails (Cannot_read_property p) = ''Cannot read properties of null (reading '' @ p @ '')''"
| "errorDetails _ = []"

definition authorize_catch :: "error \<Rightarrow> error" where
  "authorize_catch e = Failed_to_authorize (errorDetails e)"

fun str :: "string option \<Rightarrow> string" where
  "str None = []"
| "str (Some s) = s"

definition authorize :: "ctx \<Rightarrow> world \<Rightarrow> (error + unit) \<times> world" where
  "authorize c w =
    (if \<not> truthy (TESLA_CLIENT_ID c) then
       (Inl (authorize_catch (Env_not_set ''TESLA_CLIENT_ID'')), w)
     else if \<not> truthy (TESLA_CLIENT_SECRET c) then
       (Inl (authorize_catch (Env_not_set ''TESLA_CLIENT_SECRET'')), w)
     else if \<not> truthy (TESLA_REFRESH_TOKEN c) then
       (Inl (authorize_catch (Env_not_set ''TESLA_REFRESH_TOKEN'')), w)
     else
       let w1 = w\<lparr>trace := trace w @
                  [POST_token (str (TESLA_CLIENT_ID c)) (str (TESLA_CLIENT_SECRET c))
                     (str (TESLA_REFRESH_TOKEN c))]\<rparr>
       in (case token_endpoint c (trace w1) of
             Inl e \<Rightarrow> (Inl (authorize_catch (Request_failed e)), w1)
           | Inr Null_body \<Rightarrow> (Inl (authorize_catch (Cannot_read_property ''access_token'')), w1)
           | Inr (Body d) \<Rightarrow>
               (Inr (),
                w1\<lparr>accessToken := access_token d,
                   tokenExpiration := js_plus (clock c (trace w1)) (js_times (expires_in d) 1000)\<rparr>)))"

text \<open>The test of \<^verbatim>\<open>getAccessToken\<close> that decides whether to refresh.\<close>

definition needs_authorize :: "ctx \<Rightarrow> world \<Rightarrow> bool" where
  "needs_authorize c w \<longleftrightarrow>
     \<not> truthy (accessToken w) \<or> js_ge (clock c (trace w)) (tokenExpiration w)"

definition getAccessToken :: "ctx \<Rightarrow> world \<Rightarrow> (error + string) \<times> world" where
  "getAccessToken c w =
    (case (if needs_authorize c w then authorize c w else (Inr (), w)) of
       (Inl e, w1) \<Rightarrow> (Inl e, w1)
     | (Inr u, w1) \<Rightarrow>
         if \<not> truthy (accessToken w1) then (Inl Could_not_obtain_access_token, w1)
         else (Inr (str (accessToken w1)), w1))"

definition getVehicles_catch :: "error \<Rightarrow> error" where
  "getVehicles_catch e = Failed_to_fetch_vehicles"

definition TeslaService_getVehicles :: "ctx \<Rightarrow> world \<Rightarrow> (error + vehicle list) \<times> world" where
  "TeslaService_getVehicles c w0 =
    (case getAccessToken c (w0\<lparr>trace := trace w0 @ [Call_getVehicles]\<rparr>) of
       (Inl e, w1) \<Rightarrow> (Inl e, w1)
     | (Inr token, w1) \<Rightarrow>
         if \<not> isRegistered w1 then (Inl (getVehicles_catch Not_registered), w1)
         else
           let w2 = w1\<lparr>trace := trace w1 @ [GET_vehicles token]\<rparr>
           in (case vehicles_endpoint c (trace w2) of
                 Inl e \<Rightarrow> (Inl (getVehicles_catch (Request_failed e)), w2)
               | Inr Null_body \<Rightarrow> (Inl (getVehicles_catch (Cannot_read_property ''response'')), w2)
               | Inr (Body d) \<Rightarrow> (Inr (case d of None \<Rightarrow> [] | Some vs \<Rightarrow> vs), w2)))"

definition wakeUp_catch :: "error \<Rightarrow> error" where
  "wakeUp_catch e = Failed_to_wake_up_vehicle e"

definition TeslaService_wakeUp :: "string \<Rightarrow> ctx \<Rightarrow> world \<Rightarrow> (error + vehicle option) \<times> world" where
  "TeslaService_wakeUp vehicleId c w0 =
    (case getAccessToken c (w0\<lparr>trace := trace w0 @ [Call_wakeUp vehicleId]\<rparr>) of
       (Inl e, w1) \<Rightarrow> (Inl e, w1)
     | (Inr token, w1) \<Rightarrow>
         if \<not> isRegistered w1 then (Inl (wakeUp_catch Not_registered), w1)
         else
           let w2 = w1\<lparr>trace := trace w1 @ [POST_wake_up vehicleId token]\<rparr>
           in (case wake_endpoint c (trace w2) of
                 Inl e \<Rightarrow> (Inl (wakeUp_catch (Request_failed e)), w2)
               | Inr Null_body \<Rightarrow> (Inl (wakeUp_catch (Cannot_read_property ''response'')), w2)
               | Inr (Body d) \<Rightarrow> (Inr d, w2)))"

section \<open>The server (index.ts)\<close>

definition CACHE_TTL :: int where
  "CACHE_TTL = 60000"

text \<open>The condition under which \<^verbatim>\<open>getVehicles\<close> goes to the service.\<close>

definition needs_fetch :: "bool \<Rightarrow> ctx \<Rightarrow> world \<Rightarrow> bool" where
  "needs_fetch forceRefresh c w \<longleftrightarrow>
     forceRefresh \<or> length (vehiclesCache w) = 0 \<or>
     clock c (trace w) - lastVehicleFetch w > CACHE_TTL"

definition getVehicles :: "bool \<Rightarrow> ctx \<Rightarrow> world \<Rightarrow> vehicle list \<times> world" where
  "getVehicles forceRefresh c w =
    (let now = clock c (trace w) in
     if needs_fetch forceRefresh c w then
       (case TeslaService_getVehicles c w of
          (Inr vs, w1) \<Rightarrow>
            (vs, w1\<lparr>vehiclesCache := vs, lastVehicleFetch := now\<rparr>)
        | (Inl e, w1) \<Rightarrow>
            if length (vehiclesCache w1) = 0 then ([], w1) else (vehiclesCache w1, w1))
     else (vehiclesCache w, w))"

subsection \<open>Resources\<close>

record resource =
  uri :: string
  mimeType :: string
  name :: string
  description :: string

definition resource_of :: "vehicle \<Rightarrow> resource" where
  "resource_of vehicle =
     \<lparr>uri = ''tesla://'' @ id_v vehicle,
      mimeType = ''application/json'',
      name = or_else (display_name vehicle) (''Tesla ('' @ vin vehicle @ '')''),
      description = ''Tesla vehicle: '' @ or_else (display_name vehicle) ''Unknown'' @
                    '' (VIN: '' @ vin vehicle @ '')''\<rparr>"

definition ListResources :: "ctx \<Rightarrow> world \<Rightarrow> (error + resource list) \<times> world" where
  "ListResources c w =
    (case getVehicles False c w of
       (vehicles, w1) \<Rightarrow> (Inr (map resource_of vehicles), w1))"

subsection \<open>Tools\<close>

text \<open>
  A tool descriptor; every input schema of the server is an object with one required
  string property.
\<close>

record tool =
  tool_name :: string
  tool_description :: string
  property :: string
  property_description :: string

definition tools :: "tool list" where
  "tools =
     [\<lparr>tool_name = ''wake_up'',
       tool_description = ''Wake up your Tesla vehicle from sleep mode'',
       property = ''vehicle_id'',
       property_description = ''Tag of the vehicle to wake up (can be id, vehicle_id, or vin)''\<rparr>,
      \<lparr>tool_name = ''refresh_vehicles'',
       tool_description = ''Refresh the list of Tesla vehicles'',
       property = ''random_string'',
       property_description = ''Dummy parameter for no-parameter tools''\<rparr>,
      \<lparr>tool_name = ''debug_vehicles'',
       tool_description = ''Show debug information about available vehicles'',
       property = ''random_string'',
       property_description = ''Dummy parameter for no-parameter tools''\<rparr>]"

definition ListTools :: "ctx \<Rightarrow> world \<Rightarrow> (error + tool list) \<times> world" where
  "ListTools c w =
    (case getVehicles False c w of
       (vehicles, w1) \<Rightarrow> if length vehicles = 0 then (Inr [], w1) else (Inr tools, w1))"

text \<open>\<^verbatim>\<open>String(request.params.arguments?.vehicle_id)\<close>: a missing argument prints as
  \<^verbatim>\<open>undefined\<close>.\<close>

fun String_arg :: "string option \<Rightarrow> string" where
  "String_arg None = ''undefined''"
| "String_arg (Some s) = s"

text \<open>The predicate handed to \<^verbatim>\<open>vehicles.find\<close> by the \<^verbatim>\<open>wake_up\<close> tool.\<close>

definition matches :: "string \<Rightarrow> vehicle \<Rightarrow> bool" where
  "matches vehicleId v \<longleftrightarrow>
     id_v v = vehicleId \<or> String_of_int (vehicle_id v) = vehicleId \<or> vin v = vehicleId"

definition newline :: string where
  "newline = [CHR 0x0A]"

text \<open>\<^verbatim>\<open>Array.prototype.join\<close>.\<close>

fun join :: "string \<Rightarrow> string list \<Rightarrow> string" where
  "join sep [] = []"
| "join sep [x] = x"
| "join sep (x # y # ys) = x @ sep @ join sep (y # ys)"

definition debugInfo :: "vehicle \<Rightarrow> string" where
  "debugInfo v =
     ''Vehicle: '' @ or_else (display_name v) ''Tesla'' @ newline @
     ''- id: '' @ id_v v @ newline @
     ''- vehicle_id: '' @ String_of_int (vehicle_id v) @ newline @
     ''- vin: '' @ vin v @ newline @
     ''- state: '' @ state_v v"

text \<open>
  The text the \<^verbatim>\<open>wake_up\<close> tool answers with, from the vehicle found in the cache and
  the result of \<^verbatim>\<open>teslaService.wakeUp\<close>.
\<close>

definition wake_up_text :: "vehicle \<Rightarrow> vehicle option \<Rightarrow> string" where
  "wake_up_text vehicle result =
     (case result of
        Some r \<Rightarrow>
          ''Successfully woke up '' @ or_else (display_name vehicle) ''your Tesla'' @
          '' (state: '' @ state_v r @ '')''
      | None \<Rightarrow> ''Failed to wake up '' @ or_else (display_name vehicle) ''your Tesla'')"

text \<open>
  The text of the \<^verbatim>\<open>debug_vehicles\<close> tool.
\<close>

definition debug_text :: "vehicle list \<Rightarrow> string" where
  "debug_text vehicles =
     (if length vehicles = 0 then
        ''No vehicles found. Make sure your Tesla account is properly connected.''
      else
        ''Found '' @ string_of_nat (length vehicles) @ '' vehicles:'' @ newline @ newline @
        join (newline @ newline) (map debugInfo vehicles))"

text \<open>
  The handler of tool calls. Its arguments are the tool's name and the \<^verbatim>\<open>vehicle_id\<close>
  argument of the request (a string, as the input schema has it, or absent); its result is the
  text of the one content item.
\<close>

definition CallTool :: "string \<Rightarrow> string option \<Rightarrow> ctx \<Rightarrow> world \<Rightarrow> (error + string) \<times> world" where
  "CallTool tool_called arg c w =
    (if tool_called = ''wake_up'' then
       let vehicleId = String_arg arg in
       if vehicleId = [] then (Inl Vehicle_ID_is_required, w)
       else
         (case getVehicles False c w of
            (vehicles, w1) \<Rightarrow>
              (case find (matches vehicleId) vehicles of
                 None \<Rightarrow> (Inl (Vehicle_not_found vehicleId), w1)
               | Some vehicle \<Rightarrow>
                   (case TeslaService_wakeUp vehicleId c w1 of
                      (Inr result, w2) \<Rightarrow> (Inr (wake_up_text vehicle result), w2)
                    | (Inl e, w2) \<Rightarrow> (Inl (Failed_to_wake_up_vehicle e), w2))))
     else if tool_called = ''refresh_vehicles'' then
       (case getVehicles True c w of
          (vehicles, w1) \<Rightarrow>
            (Inr (''Successfully refreshed the vehicle list. Found '' @
                  string_of_nat (length (vehiclesCache w1)) @ '' vehicles.''), w1))
     else if tool_called = ''debug_vehicles'' then
       (case getVehicles False c w of
          (vehicles, w1) \<Rightarrow> (Inr (debug_text vehicles), w1))
     else (Inl Unknown_tool, w))"

section \<open>Runs and observations\<close>

text \<open>The state of a process that has just started: the initial values of the variables.\<close>

definition startup :: "bool \<Rightarrow> world" where
  "startup registered =
     \<lparr>accessToken = None, tokenExpiration = Num 0, isRegistered = registered,
      vehiclesCache = [], lastVehicleFetch = 0, trace = []\<rparr>"

text \<open>
  A sequence of calls of \<^verbatim>\<open>getAccessToken\<close>, each in its own context; every call is
  recorded with its context, the state before, its result and the state after.
\<close>

fun getAccessToken_calls ::
  "ctx list \<Rightarrow> world \<Rightarrow> (ctx \<times> world \<times> (error + string) \<times> world) list" where
  "getAccessToken_calls [] w = []"
| "getAccessToken_calls (c # cs) w =
     (c, w, fst (getAccessToken c w), snd (getAccessToken c w)) #
     getAccessToken_calls cs (snd (getAccessToken c w))"

text \<open>How often the service was asked for the list of vehicles.\<close>

definition list_calls :: "world \<Rightarrow> nat" where
  "list_calls w = count_list (trace w) Call_getVehicles"

text \<open>The HTTP requests sent, in order: the history without the instrumentation.\<close>

fun requests :: "event list \<Rightarrow> event list" where
  "requests [] = []"
| "requests (Call_getVehicles # es) = requests es"
| "requests (Call_wakeUp p # es) = requests es"
| "requests (e # es) = e # requests es"

text \<open>The bearer tokens of the list requests sent, in order.\<close>

fun list_requests :: "event list \<Rightarrow> string list" where
  "list_requests [] = []"
| "list_requests (GET_vehicles t # es) = t # list_requests es"
| "list_requests (e # es) = list_requests es"

text \<open>The vehicle identifiers handed to \<^verbatim>\<open>teslaService.wakeUp\<close>, in order.\<close>

fun wake_calls :: "event list \<Rightarrow> string list" where
  "wake_calls [] = []"
| "wake_calls (Call_wakeUp p # es) = p # wake_calls es"
| "wake_calls (e # es) = wake_calls es"

text \<open>The path parameters of the wake requests sent, in order.\<close>

fun wake_paths :: "event list \<Rightarrow> string list" where
  "wake_paths [] = []"
| "wake_paths (POST_wake_up p t # es) = p # wake_paths es"
| "wake_paths (e # es) = wake_paths es"

subsection \<open>Test doubles\<close>

text \<open>
  A context with a clock standing at \<open>t\<close>, all three credentials set and endpoints that
  give fixed answers.
\<close>

definition mock ::
  "int \<Rightarrow> axios_error + token_response body \<Rightarrow> axios_error + vehicles_response body \<Rightarrow>
   axios_error + wake_response body \<Rightarrow> ctx" where
  "mock t token_reply vehicles_reply wake_reply =
     \<lparr>clock = (\<lambda>h. t),
      TESLA_CLIENT_ID = Some ''client'',
      TESLA_CLIENT_SECRET = Some ''secret'',
      TESLA_REFRESH_TOKEN = Some ''refresh'',
      token_endpoint = (\<lambda>h. token_reply),
      vehicles_endpoint = (\<lambda>h. vehicles_reply),
      wake_endpoint = (\<lambda>h. wake_reply)\<rparr>"

definition car :: vehicle where
  "car = \<lparr>id_v = ''1'', vin = ''5YJ3E1EA7KF000001'', display_name = ''Car'',
          state_v = ''online'', vehicle_id = 12345\<rparr>"

definition token_for :: "int \<Rightarrow> axios_error + token_response body" where
  "token_for seconds = Inr (Body \<lparr>access_token = Some ''tok'', expires_in = Some seconds\<rparr>)"

definition status_error :: "nat \<Rightarrow> string \<Rightarrow> axios_error" where
  "status_error status body = AxiosError ''Request failed'' (Some (status, body))"

text \<open>A second vehicle, whose numeric identifier prints as the first one's \<^verbatim>\<open>id\<close>.\<close>

definition decoy :: vehicle where
  "decoy = \<lparr>id_v = ''2'', vin = ''5YJ3E1EA7KF000002'', display_name = ''Decoy'',
            state_v = ''asleep'', vehicle_id = 1\<rparr>"

text \<open>A vehicle without a display name.\<close>

definition unnamed :: vehicle where
  "unnamed = \<lparr>id_v = ''3'', vin = ''VIN3'', display_name = [], state_v = ''offline'',
              vehicle_id = 333\<rparr>"

text \<open>
  A registered process whose cache was filled with one car at instant 1000, holding a token
  good until instant 3601000.
\<close>

definition populated :: world where
  "populated =
     \<lparr>accessToken = Some ''tok'', tokenExpiration = Num 3601000, isRegistered = True,
      vehiclesCache = [car], lastVehicleFetch = 1000,
      trace = [Call_getVehicles, POST_token ''client'' ''secret'' ''refresh'',
               GET_vehicles ''tok'']\<rparr>"

section \<open>Evaluation and frame lemmas\<close>


lemmas service_defs =
  getVehicles_def needs_fetch_def CACHE_TTL_def TeslaService_getVehicles_def getVehicles_catch_def
  TeslaService_wakeUp_def wakeUp_catch_def
  getAccessToken_def needs_authorize_def authorize_def authorize_catch_def Let_def

lemmas example_defs =
  startup_def mock_def car_def decoy_def unnamed_def token_for_def status_error_def populated_def

lemma wake_paths_append: "wake_paths (xs @ ys) = wake_paths xs @ wake_paths ys"
  by (induction xs rule: wake_paths.induct) simp_all

lemma wake_calls_append: "wake_calls (xs @ ys) = wake_calls xs @ wake_calls ys"
  by (induction xs rule: wake_calls.induct) simp_all

lemma list_requests_append: "list_requests (xs @ ys) = list_requests xs @ list_requests ys"
  by (induction xs rule: list_requests.induct) simp_all

lemma authorize_trace:
  "trace (snd (authorize c w)) = trace w \<or>
   trace (snd (authorize c w)) =
     trace w @ [POST_token (str (TESLA_CLIENT_ID c)) (str (TESLA_CLIENT_SECRET c))
                  (str (TESLA_REFRESH_TOKEN c))]"
  by (simp add: authorize_def Let_def split: sum.splits body.splits)

lemma authorize_frame:
  "vehiclesCache (snd (authorize c w)) = vehiclesCache w \<and>
   lastVehicleFetch (snd (authorize c w)) = lastVehicleFetch w \<and>
   isRegistered (snd (authorize c w)) = isRegistered w"
  by (simp add: authorize_def Let_def split: sum.splits body.splits)

lemma getAccessToken_trace:
  "trace (snd (getAccessToken c w)) = trace w \<or>
   trace (snd (getAccessToken c w)) =
     trace w @ [POST_token (str (TESLA_CLIENT_ID c)) (str (TESLA_CLIENT_SECRET c))
                  (str (TESLA_REFRESH_TOKEN c))]"
  using authorize_trace [of c w]
  by (auto simp add: getAccessToken_def split: prod.splits sum.splits body.splits)

lemma getAccessToken_frame:
  "vehiclesCache (snd (getAccessToken c w)) = vehiclesCache w \<and>
   lastVehicleFetch (snd (getAccessToken c w)) = lastVehicleFetch w \<and>
   isRegistered (snd (getAccessToken c w)) = isRegistered w"
  using authorize_frame [of c w]
  by (auto simp add: getAccessToken_def split: prod.splits sum.splits body.splits)

lemma getAccessToken_observations:
  "list_calls (snd (getAccessToken c w)) = list_calls w \<and>
   list_requests (trace (snd (getAccessToken c w))) = list_requests (trace w) \<and>
   wake_calls (trace (snd (getAccessToken c w))) = wake_calls (trace w) \<and>
   wake_paths (trace (snd (getAccessToken c w))) = wake_paths (trace w)"
  using getAccessToken_trace [of c w]
  by (auto simp add: list_calls_def wake_paths_append wake_calls_append list_requests_append)

lemma TeslaService_getVehicles_frame:
  "vehiclesCache (snd (TeslaService_getVehicles c w)) = vehiclesCache w \<and>
   lastVehicleFetch (snd (TeslaService_getVehicles c w)) = lastVehicleFetch w \<and>
   isRegistered (snd (TeslaService_getVehicles c w)) = isRegistered w"
  using getAccessToken_frame [of c "w\<lparr>trace := trace w @ [Call_getVehicles]\<rparr>"]
  by (auto simp add: TeslaService_getVehicles_def Let_def split: prod.splits sum.splits body.splits)

lemma TeslaService_getVehicles_observations:
  "list_calls (snd (TeslaService_getVehicles c w)) = list_calls w + 1 \<and>
   wake_calls (trace (snd (TeslaService_getVehicles c w))) = wake_calls (trace w) \<and>
   wake_paths (trace (snd (TeslaService_getVehicles c w))) = wake_paths (trace w)"
  using getAccessToken_observations [of c "w\<lparr>trace := trace w @ [Call_getVehicles]\<rparr>"]
  by (auto simp add: TeslaService_getVehicles_def list_calls_def Let_def
        wake_paths_append wake_calls_append split: prod.splits sum.splits body.splits)

lemma requests_append: "requests (xs @ ys) = requests xs @ requests ys"
  by (induction xs rule: requests.induct) simp_all

lemma authorize_sends:
  "trace (snd (authorize c w)) =
     trace w @
     (if truthy (TESLA_CLIENT_ID c) \<and> truthy (TESLA_CLIENT_SECRET c) \<and>
         truthy (TESLA_REFRESH_TOKEN c)
      then [POST_token (str (TESLA_CLIENT_ID c)) (str (TESLA_CLIENT_SECRET c))
              (str (TESLA_REFRESH_TOKEN c))]
      else [])"
  by (simp add: authorize_def Let_def split: sum.splits body.splits)

lemma getAccessToken_sends:
  "trace (snd (getAccessToken c w)) =
     trace w @
     (if (\<not> truthy (accessToken w) \<or> js_ge (clock c (trace w)) (tokenExpiration w)) \<and>
         truthy (TESLA_CLIENT_ID c) \<and> truthy (TESLA_CLIENT_SECRET c) \<and>
         truthy (TESLA_REFRESH_TOKEN c)
      then [POST_token (str (TESLA_CLIENT_ID c)) (str (TESLA_CLIENT_SECRET c))
              (str (TESLA_REFRESH_TOKEN c))]
      else [])"
proof -
  have "snd (getAccessToken c w) = (if needs_authorize c w then snd (authorize c w) else w)"
    by (simp add: getAccessToken_def split: prod.splits sum.splits)
  then show ?thesis
    using authorize_sends [of c w] by (simp add: needs_authorize_def)
qed

lemma TeslaService_getVehicles_sends:
  "trace (snd (TeslaService_getVehicles c w)) =
     trace (snd (getAccessToken c (w\<lparr>trace := trace w @ [Call_getVehicles]\<rparr>))) @
     (case fst (getAccessToken c (w\<lparr>trace := trace w @ [Call_getVehicles]\<rparr>)) of
        Inr token \<Rightarrow> if isRegistered w then [GET_vehicles token] else []
      | Inl e \<Rightarrow> [])"
  using getAccessToken_frame [of c "w\<lparr>trace := trace w @ [Call_getVehicles]\<rparr>"]
  by (auto simp add: TeslaService_getVehicles_def Let_def split: prod.splits sum.splits body.splits)

lemma TeslaService_getVehicles_requests:
  "requests (trace (snd (TeslaService_getVehicles c w))) =
     requests (trace w) @
     (if (\<not> truthy (accessToken w) \<or>
          js_ge (clock c (trace w @ [Call_getVehicles])) (tokenExpiration w)) \<and>
         truthy (TESLA_CLIENT_ID c) \<and> truthy (TESLA_CLIENT_SECRET c) \<and>
         truthy (TESLA_REFRESH_TOKEN c)
      then [POST_token (str (TESLA_CLIENT_ID c)) (str (TESLA_CLIENT_SECRET c))
              (str (TESLA_REFRESH_TOKEN c))]
      else []) @
     (case fst (getAccessToken c (w\<lparr>trace := trace w @ [Call_getVehicles]\<rparr>)) of
        Inr token \<Rightarrow> if isRegistered w then [GET_vehicles token] else []
      | Inl e \<Rightarrow> [])"
  unfolding TeslaService_getVehicles_sends [of c w]
    getAccessToken_sends [of c "w\<lparr>trace := trace w @ [Call_getVehicles]\<rparr>"]
  by (simp add: requests_append split: sum.splits)

lemma getVehicles_fresh:
  "\<not> needs_fetch f c w \<Longrightarrow> getVehicles f c w = (vehiclesCache w, w)"
  by (simp add: getVehicles_def)

lemma getVehicles_fetched:
  "needs_fetch f c w \<Longrightarrow> TeslaService_getVehicles c w = (Inr vs, w1) \<Longrightarrow>
   getVehicles f c w = (vs, w1\<lparr>vehiclesCache := vs, lastVehicleFetch := clock c (trace w)\<rparr>)"
  by (simp add: getVehicles_def)

lemma getVehicles_failed:
  "needs_fetch f c w \<Longrightarrow> TeslaService_getVehicles c w = (Inl e, w1) \<Longrightarrow>
   getVehicles f c w = (vehiclesCache w, w1)"
  using TeslaService_getVehicles_frame [of c w]
  by (simp add: getVehicles_def)

lemma getVehicles_cases:
  obtains (fresh) "\<not> needs_fetch f c w" "getVehicles f c w = (vehiclesCache w, w)"
  | (fetched) vs w1 where "needs_fetch f c w" "TeslaService_getVehicles c w = (Inr vs, w1)"
      "getVehicles f c w = (vs, w1\<lparr>vehiclesCache := vs, lastVehicleFetch := clock c (trace w)\<rparr>)"
  | (failed) e w1 where "needs_fetch f c w" "TeslaService_getVehicles c w = (Inl e, w1)"
      "getVehicles f c w = (vehiclesCache w, w1)"
proof (cases "needs_fetch f c w")
  case False
  then show ?thesis using fresh getVehicles_fresh by blast
next
  case True
  obtain r w1 where r: "TeslaService_getVehicles c w = (r, w1)"
    by (cases "TeslaService_getVehicles c w")
  show ?thesis
  proof (cases r)
    case (Inl e)
    then show ?thesis using failed True r getVehicles_failed by blast
  next
    case (Inr vs)
    then show ?thesis using fetched True r getVehicles_fetched by blast
  qed
qed

lemma getVehicles_returns_cache:
  "fst (getVehicles f c w) = vehiclesCache (snd (getVehicles f c w))"
proof (cases f c w rule: getVehicles_cases)
  case fresh
  then show ?thesis by simp
next
  case (fetched vs w1)
  then show ?thesis by simp
next
  case (failed e w1)
  then show ?thesis using TeslaService_getVehicles_frame [of c w] by simp
qed

lemma getVehicles_observations:
  "list_calls (snd (getVehicles f c w)) = list_calls w + (if needs_fetch f c w then 1 else 0) \<and>
   wake_calls (trace (snd (getVehicles f c w))) = wake_calls (trace w) \<and>
   wake_paths (trace (snd (getVehicles f c w))) = wake_paths (trace w) \<and>
   isRegistered (snd (getVehicles f c w)) = isRegistered w"
proof (cases f c w rule: getVehicles_cases)
  case fresh
  then show ?thesis by simp
next
  case (fetched vs w1)
  then show ?thesis
    using TeslaService_getVehicles_observations [of c w] TeslaService_getVehicles_frame [of c w]
    by (simp add: list_calls_def)
next
  case (failed e w1)
  then show ?thesis
    using TeslaService_getVehicles_observations [of c w] TeslaService_getVehicles_frame [of c w]
    by (simp add: list_calls_def)
qed

lemmas print_defs = String_of_int_def string_of_nat.simps digit_char_def

lemmas tool_defs =
  CallTool_def ListTools_def ListResources_def matches_def wake_up_text_def debug_text_def
  debugInfo_def resource_of_def or_else_def newline_def

lemma getVehicles_requests:
  "requests (trace (snd (getVehicles f c w))) =
     requests (trace w) @
     (if needs_fetch f c w then
        (if (\<not> truthy (accessToken w) \<or>
             js_ge (clock c (trace w @ [Call_getVehicles])) (tokenExpiration w)) \<and>
            truthy (TESLA_CLIENT_ID c) \<and> truthy (TESLA_CLIENT_SECRET c) \<and>
            truthy (TESLA_REFRESH_TOKEN c)
         then [POST_token (str (TESLA_CLIENT_ID c)) (str (TESLA_CLIENT_SECRET c))
                 (str (TESLA_REFRESH_TOKEN c))]
         else []) @
        (case fst (getAccessToken c (w\<lparr>trace := trace w @ [Call_getVehicles]\<rparr>)) of
           Inr token \<Rightarrow> if isRegistered w then [GET_vehicles token] else []
         | Inl e \<Rightarrow> [])
      else [])"
proof (cases f c w rule: getVehicles_cases)
  case fresh
  then show ?thesis by simp
next
  case (fetched vs w1)
  then show ?thesis using TeslaService_getVehicles_requests [of c w] by simp
next
  case (failed e w1)
  then show ?thesis using TeslaService_getVehicles_requests [of c w] by simp
qed

lemma TeslaService_wakeUp_frame:
  "vehiclesCache (snd (TeslaService_wakeUp p c w)) = vehiclesCache w \<and>
   lastVehicleFetch (snd (TeslaService_wakeUp p c w)) = lastVehicleFetch w \<and>
   isRegistered (snd (TeslaService_wakeUp p c w)) = isRegistered w"
  using getAccessToken_frame [of c "w\<lparr>trace := trace w @ [Call_wakeUp p]\<rparr>"]
  by (auto simp add: TeslaService_wakeUp_def Let_def split: prod.splits sum.splits body.splits)

lemma TeslaService_wakeUp_observations:
  "list_calls (snd (TeslaService_wakeUp p c w)) = list_calls w \<and>
   wake_calls (trace (snd (TeslaService_wakeUp p c w))) = wake_calls (trace w) @ [p] \<and>
   (wake_paths (trace (snd (TeslaService_wakeUp p c w))) = wake_paths (trace w) \<or>
    wake_paths (trace (snd (TeslaService_wakeUp p c w))) = wake_paths (trace w) @ [p])"
  using getAccessToken_observations [of c "w\<lparr>trace := trace w @ [Call_wakeUp p]\<rparr>"]
  by (auto simp add: TeslaService_wakeUp_def list_calls_def Let_def
        wake_paths_append wake_calls_append split: prod.splits sum.splits body.splits)

lemma find_first_match:
  "\<forall>u \<in> set pre. \<not> P u \<Longrightarrow> P v \<Longrightarrow> find P (pre @ v # post) = Some v"
  by (induction pre) simp_all

lemma wake_up_empty:
  "String_arg arg = [] \<Longrightarrow> CallTool ''wake_up'' arg c w = (Inl Vehicle_ID_is_required, w)"
  by (simp add: CallTool_def)

lemma wake_up_not_found:
  "String_arg arg \<noteq> [] \<Longrightarrow> find (matches (String_arg arg)) (fst (getVehicles False c w)) = None \<Longrightarrow>
   CallTool ''wake_up'' arg c w =
     (Inl (Vehicle_not_found (String_arg arg)), snd (getVehicles False c w))"
  by (simp add: CallTool_def Let_def case_prod_beta)

lemma wake_up_found:
  "String_arg arg \<noteq> [] \<Longrightarrow> find (matches (String_arg arg)) (fst (getVehicles False c w)) = Some v \<Longrightarrow>
   CallTool ''wake_up'' arg c w =
     (case TeslaService_wakeUp (String_arg arg) c (snd (getVehicles False c w)) of
        (Inr result, w2) \<Rightarrow> (Inr (wake_up_text v result), w2)
      | (Inl e, w2) \<Rightarrow> (Inl (Failed_to_wake_up_vehicle e), w2))"
  by (simp add: CallTool_def Let_def case_prod_beta)

lemma populated_reached:
  "getVehicles False (mock 1000 (token_for 3600) (Inr (Body (Some [car]))) (Inr (Body None))) (startup True) =
     ([car], populated)"
  by (simp add: service_defs example_defs)

lemma populated_fresh:
  "getVehicles False (mock 2000 a b d) populated = ([car], populated)"
  by (simp add: getVehicles_def needs_fetch_def CACHE_TTL_def mock_def populated_def)

lemma populated_wakeUp:
  "TeslaService_wakeUp p (mock 2000 a b (Inr (Body r))) populated =
     (Inr r, populated\<lparr>trace := trace populated @ [Call_wakeUp p, POST_wake_up p ''tok'']\<rparr>)"
  by (simp add: service_defs mock_def populated_def)

lemma wake_up_state:
  "snd (CallTool ''wake_up'' arg c w) =
     (if String_arg arg = [] then w
      else if find (matches (String_arg arg)) (fst (getVehicles False c w)) = None
      then snd (getVehicles False c w)
      else snd (TeslaService_wakeUp (String_arg arg) c (snd (getVehicles False c w))))"
  by (auto simp add: CallTool_def Let_def case_prod_beta split: option.splits sum.splits body.splits)

lemma join_contains:
  "v \<in> set vs \<Longrightarrow> \<exists>before after. join sep (map f vs) = before @ f v @ after"
proof (induction vs)
  case Nil
  then show ?case by simp
next
  case (Cons u us)
  show ?case
  proof (cases us)
    case Nil
    with Cons.prems have "join sep (map f (u # us)) = [] @ f v @ []" by simp
    then show ?thesis by blast
  next
    case (Cons u' us')
    have unfold: "join sep (map f (u # us)) = f u @ sep @ join sep (map f us)"
      using Cons by simp
    show ?thesis
    proof (cases "v = u")
      case True
      then have "join sep (map f (u # us)) = [] @ f v @ (sep @ join sep (map f us))"
        using unfold by simp
      then show ?thesis by blast
    next
      case False
      then have "v \<in> set us" using Cons.prems by simp
      then obtain b a where "join sep (map f us) = b @ f v @ a"
        using Cons.IH by blast
      then have "join sep (map f (u # us)) = (f u @ sep @ b) @ f v @ a"
        using unfold by simp
      then show ?thesis by blast
    qed
  qed
qed

lemma debug_text_contains:
  assumes "v \<in> set vs"
  shows "\<exists>before after. debug_text vs =
     before @ ''- id: '' @ id_v v @ newline @
     ''- vehicle_id: '' @ String_of_int (vehicle_id v) @ newline @
     ''- vin: '' @ vin v @ newline @
     ''- state: '' @ state_v v @ after"
proof -
  obtain b a where j: "join (newline @ newline) (map debugInfo vs) = b @ debugInfo v @ a"
    using join_contains [OF assms] by blast
  have "vs \<noteq> []" using assms by auto
  then have "debug_text vs =
      (''Found '' @ string_of_nat (length vs) @ '' vehicles:'' @ newline @ newline @ b @
       ''Vehicle: '' @ or_else (display_name v) ''Tesla'' @ newline) @
      ''- id: '' @ id_v v @ newline @
      ''- vehicle_id: '' @ String_of_int (vehicle_id v) @ newline @
      ''- vin: '' @ vin v @ newline @
      ''- state: '' @ state_v v @ a"
    by (simp add: debug_text_def j debugInfo_def)
  then show ?thesis by blast
qed

section \<open>The access token\<close>

lemma js_ge_after_refresh:
  "js_ge t (js_plus t (js_times x 1000)) \<longleftrightarrow> (\<exists>n. x = Some n \<and> n \<le> 0)"
  by (cases x) simp_all

lemma getAccessToken_state:
  "snd (getAccessToken c w) =
     (if \<not> truthy (accessToken w) \<or> js_ge (clock c (trace w)) (tokenExpiration w)
      then snd (authorize c w) else w)"
  by (simp add: getAccessToken_def needs_authorize_def split: prod.splits sum.splits body.splits)

lemma getAccessToken_returns_held:
  "fst (getAccessToken c w) = Inr tok \<Longrightarrow> accessToken (snd (getAccessToken c w)) = Some tok"
  by (cases "accessToken (snd (authorize c w))"; cases "accessToken w")
     (auto simp add: getAccessToken_def split: prod.splits sum.splits if_splits)

lemma authorize_expiry:
  "fst (authorize c w) = Inr u \<Longrightarrow>
   \<exists>d. token_endpoint c (trace (snd (authorize c w))) = Inr (Body d) \<and>
       tokenExpiration (snd (authorize c w)) =
         js_plus (clock c (trace (snd (authorize c w)))) (js_times (expires_in d) 1000)"
  by (auto simp add: authorize_def Let_def split: if_splits sum.splits body.splits)

lemma getAccessToken_unexpired:
  assumes pos: "\<forall>h d n. token_endpoint c h = Inr (Body d) \<longrightarrow> expires_in d = Some n \<longrightarrow> 0 < n"
    and ret: "fst (getAccessToken c w) = Inr tok"
  shows "\<not> js_ge (clock c (trace (snd (getAccessToken c w)))) (tokenExpiration (snd (getAccessToken c w)))"
proof (cases "\<not> truthy (accessToken w) \<or> js_ge (clock c (trace w)) (tokenExpiration w)")
  case False
  then show ?thesis by (simp add: getAccessToken_state)
next
  case True
  then have st: "snd (getAccessToken c w) = snd (authorize c w)"
    by (simp add: getAccessToken_state)
  from True ret have "fst (authorize c w) = Inr ()"
    by (auto simp add: getAccessToken_def needs_authorize_def split: prod.splits sum.splits body.splits)
  then obtain d where d: "token_endpoint c (trace (snd (authorize c w))) = Inr (Body d)"
      "tokenExpiration (snd (authorize c w)) =
         js_plus (clock c (trace (snd (authorize c w)))) (js_times (expires_in d) 1000)"
    using authorize_expiry by blast
  from pos d(1) have "\<not> (\<exists>n. expires_in d = Some n \<and> n \<le> 0)"
    by fastforce
  then show ?thesis
    by (simp add: st d(2) js_ge_after_refresh)
qed

text \<open>
  C1, as the code has it. In every sequence of calls of \<^verbatim>\<open>getAccessToken\<close>, each under
  its own clock and remote answers, a call refreshes first (runs \<^verbatim>\<open>authorize\<close>) exactly
  when no token is held or the clock has reached the held token's expiry, and otherwise leaves
  the state alone. Provided that no answer of the token endpoint reports a validity of zero
  or fewer seconds, every token a call returns is the one held after the call, and its expiry
  lies strictly after the clock's reading at the return.
\<close>

theorem getAccessToken_calls_unexpired:
  assumes "\<forall>c \<in> set cs. \<forall>h d n. token_endpoint c h = Inr (Body d) \<longrightarrow> expires_in d = Some n \<longrightarrow> 0 < n"
  shows "\<forall>(c, w, r, w') \<in> set (getAccessToken_calls cs w0).
           w' = (if \<not> truthy (accessToken w) \<or> js_ge (clock c (trace w)) (tokenExpiration w)
                 then snd (authorize c w) else w) \<and>
           (\<forall>tok. r = Inr tok \<longrightarrow>
              accessToken w' = Some tok \<and> \<not> js_ge (clock c (trace w')) (tokenExpiration w'))"
  using assms
proof (induction cs arbitrary: w0)
  case Nil
  then show ?case by simp
next
  case (Cons c cs)
  have pos: "\<forall>h d n. token_endpoint c h = Inr (Body d) \<longrightarrow> expires_in d = Some n \<longrightarrow> 0 < n"
    using Cons.prems by simp
  have rest: "\<forall>c \<in> set cs. \<forall>h d n. token_endpoint c h = Inr (Body d) \<longrightarrow> expires_in d = Some n \<longrightarrow> 0 < n"
    using Cons.prems by simp
  show ?case
    using Cons.IH [OF rest, of "snd (getAccessToken c w0)"]
      getAccessToken_state [of c w0] getAccessToken_returns_held [of c w0]
      getAccessToken_unexpired [OF pos, of w0]
    by simp
qed

theorem getAccessToken_calls_unexpired_witness:
  "fst (getAccessToken (mock 1000 (token_for 3600) (Inr (Body None)) (Inr (Body None))) (startup True)) = Inr ''tok'' \<and>
   tokenExpiration (snd (getAccessToken (mock 1000 (token_for 3600) (Inr (Body None)) (Inr (Body None))) (startup True)))
     = Num 3601000 \<and>
   fst (getAccessToken (mock 3600999 (token_for 60) (Inr (Body None)) (Inr (Body None)))
          (snd (getAccessToken (mock 1000 (token_for 3600) (Inr (Body None)) (Inr (Body None))) (startup True))))
     = Inr ''tok'' \<and>
   \<not> js_ge 3600999
       (tokenExpiration (snd (getAccessToken (mock 3600999 (token_for 60) (Inr (Body None)) (Inr (Body None)))
          (snd (getAccessToken (mock 1000 (token_for 3600) (Inr (Body None)) (Inr (Body None))) (startup True))))))"
proof -
  let ?c1 = "mock 1000 (token_for 3600) (Inr (Body None)) (Inr (Body None))"
  let ?c2 = "mock 3600999 (token_for 60) (Inr (Body None)) (Inr (Body None))"
  have pos: "\<forall>c \<in> set [?c1, ?c2].
      \<forall>h d n. token_endpoint c h = Inr (Body d) \<longrightarrow> expires_in d = Some n \<longrightarrow> 0 < n"
    by (auto simp add: mock_def token_for_def)
  have r1: "fst (getAccessToken ?c1 (startup True)) = Inr ''tok''"
    by (simp add: service_defs example_defs)
  have r2: "fst (getAccessToken ?c2 (snd (getAccessToken ?c1 (startup True)))) = Inr ''tok''"
    by (simp add: service_defs example_defs)
  have e1: "tokenExpiration (snd (getAccessToken ?c1 (startup True))) = Num 3601000"
    by (simp add: service_defs example_defs)
  have clk: "clock ?c2 h = 3600999" for h
    by (simp add: mock_def)
  show ?thesis
    using getAccessToken_calls_unexpired [OF pos, of "startup True"]
    by (simp add: service_defs example_defs)
qed

text \<open>
  C1 as stated fails: the expiry is computed from whatever \<^verbatim>\<open>expires_in\<close> the endpoint
  reports. A fresh process whose refresh is answered with a validity of 0 seconds at instant
  1000 returns the token with expiry 1000, which the code's own test counts as expired at
  1000.
\<close>

theorem getAccessToken_expired_counterexample:
  "fst (getAccessToken (mock 1000 (token_for 0) (Inr (Body None)) (Inr (Body None))) (startup True)) = Inr ''tok'' \<and>
   tokenExpiration (snd (getAccessToken (mock 1000 (token_for 0) (Inr (Body None)) (Inr (Body None))) (startup True)))
     = Num 1000 \<and>
   clock (mock 1000 (token_for 0) (Inr (Body None)) (Inr (Body None)))
     (trace (snd (getAccessToken (mock 1000 (token_for 0) (Inr (Body None)) (Inr (Body None))) (startup True)))) = 1000 \<and>
   js_ge (clock (mock 1000 (token_for 0) (Inr (Body None)) (Inr (Body None)))
            (trace (snd (getAccessToken (mock 1000 (token_for 0) (Inr (Body None)) (Inr (Body None))) (startup True)))))
     (tokenExpiration (snd (getAccessToken (mock 1000 (token_for 0) (Inr (Body None)) (Inr (Body None))) (startup True))))"
  by (simp add: service_defs example_defs)

text \<open>
  C4, as the code has it. \<^verbatim>\<open>authorize\<close> fails exactly when one of the three credentials
  is missing or empty, or the request to the token endpoint fails (no answer, or a status
  outside 2xx), or the 2xx answer has no body whose properties can be read (\<^verbatim>\<open>null\<close>).
  Every such failure is a \<^verbatim>\<open>Failed to authorize\<close> error and leaves the held token and its
  expiry as they were. When the endpoint answers with a 2xx status and a body,
  \<^verbatim>\<open>authorize\<close> does not fail: it stores the body's \<^verbatim>\<open>access_token\<close> and the expiry
  computed from its \<^verbatim>\<open>expires_in\<close>, whether or not those fields are there.
\<close>

theorem authorize_failure_keeps_token:
  "((\<exists>e. fst (authorize c w) = Inl e) \<longleftrightarrow>
      \<not> truthy (TESLA_CLIENT_ID c) \<or> \<not> truthy (TESLA_CLIENT_SECRET c) \<or>
      \<not> truthy (TESLA_REFRESH_TOKEN c) \<or>
      (\<exists>e. token_endpoint c
             (trace w @ [POST_token (str (TESLA_CLIENT_ID c)) (str (TESLA_CLIENT_SECRET c))
                           (str (TESLA_REFRESH_TOKEN c))]) = Inl e) \<or>
      token_endpoint c
        (trace w @ [POST_token (str (TESLA_CLIENT_ID c)) (str (TESLA_CLIENT_SECRET c))
                      (str (TESLA_REFRESH_TOKEN c))]) = Inr Null_body) \<and>
   (\<forall>e. fst (authorize c w) = Inl e \<longrightarrow>
      (\<exists>details. e = Failed_to_authorize details) \<and>
      accessToken (snd (authorize c w)) = accessToken w \<and>
      tokenExpiration (snd (authorize c w)) = tokenExpiration w) \<and>
   (\<forall>d. truthy (TESLA_CLIENT_ID c) \<and> truthy (TESLA_CLIENT_SECRET c) \<and>
        truthy (TESLA_REFRESH_TOKEN c) \<and>
        token_endpoint c
          (trace w @ [POST_token (str (TESLA_CLIENT_ID c)) (str (TESLA_CLIENT_SECRET c))
                        (str (TESLA_REFRESH_TOKEN c))]) = Inr (Body d) \<longrightarrow>
      fst (authorize c w) = Inr () \<and>
      accessToken (snd (authorize c w)) = access_token d \<and>
      tokenExpiration (snd (authorize c w)) =
        js_plus (clock c (trace (snd (authorize c w)))) (js_times (expires_in d) 1000))"
proof -
  let ?h = "trace w @ [POST_token (str (TESLA_CLIENT_ID c)) (str (TESLA_CLIENT_SECRET c))
                         (str (TESLA_REFRESH_TOKEN c))]"
  have fails: "(\<exists>e. fst (authorize c w) = Inl e) \<longleftrightarrow>
      \<not> truthy (TESLA_CLIENT_ID c) \<or> \<not> truthy (TESLA_CLIENT_SECRET c) \<or>
      \<not> truthy (TESLA_REFRESH_TOKEN c) \<or>
      (\<exists>e. token_endpoint c ?h = Inl e) \<or> token_endpoint c ?h = Inr Null_body"
    by (auto simp add: authorize_def Let_def split: sum.splits body.splits)
  have kept: "\<forall>e. fst (authorize c w) = Inl e \<longrightarrow>
      (\<exists>details. e = Failed_to_authorize details) \<and>
      accessToken (snd (authorize c w)) = accessToken w \<and>
      tokenExpiration (snd (authorize c w)) = tokenExpiration w"
    by (auto simp add: authorize_def authorize_catch_def Let_def split: sum.splits body.splits)
  have stored: "\<forall>d. truthy (TESLA_CLIENT_ID c) \<and> truthy (TESLA_CLIENT_SECRET c) \<and>
        truthy (TESLA_REFRESH_TOKEN c) \<and> token_endpoint c ?h = Inr (Body d) \<longrightarrow>
      fst (authorize c w) = Inr () \<and>
      accessToken (snd (authorize c w)) = access_token d \<and>
      tokenExpiration (snd (authorize c w)) =
        js_plus (clock c (trace (snd (authorize c w)))) (js_times (expires_in d) 1000)"
    by (simp add: authorize_def Let_def)
  from fails kept stored show ?thesis
    by (intro conjI)
qed

theorem authorize_failure_keeps_token_witness:
  "fst (authorize (mock 5000000 (Inl (status_error 401 ''invalid_grant'')) (Inr (Body None)) (Inr (Body None))) populated)
     = Inl (Failed_to_authorize ''invalid_grant'') \<and>
   accessToken (snd (authorize (mock 5000000 (Inl (status_error 401 ''invalid_grant'')) (Inr (Body None)) (Inr (Body None))) populated))
     = Some ''tok'' \<and>
   tokenExpiration (snd (authorize (mock 5000000 (Inl (status_error 401 ''invalid_grant'')) (Inr (Body None)) (Inr (Body None))) populated))
     = Num 3601000 \<and>
   fst (authorize (mock 5000000 (Inr Null_body) (Inr (Body None)) (Inr (Body None))) populated)
     = Inl (Failed_to_authorize ''Cannot read properties of null (reading access_token)'') \<and>
   accessToken (snd (authorize (mock 5000000 (Inr Null_body) (Inr (Body None)) (Inr (Body None))) populated))
     = Some ''tok'' \<and>
   tokenExpiration (snd (authorize (mock 5000000 (Inr Null_body) (Inr (Body None)) (Inr (Body None))) populated))
     = Num 3601000 \<and>
   fst (authorize (mock 5000000 (token_for 60) (Inr (Body None)) (Inr (Body None))) populated) = Inr () \<and>
   tokenExpiration (snd (authorize (mock 5000000 (token_for 60) (Inr (Body None)) (Inr (Body None))) populated))
     = Num 5060000"
proof -
  let ?bad = "mock 5000000 (Inl (status_error 401 ''invalid_grant'')) (Inr (Body None)) (Inr (Body None))"
  let ?null = "mock 5000000 (Inr Null_body) (Inr (Body None)) (Inr (Body None))"
  let ?good = "mock 5000000 (token_for 60) (Inr (Body None)) (Inr (Body None))"
  have failed: "fst (authorize ?bad populated) = Inl (Failed_to_authorize ''invalid_grant'')"
    by (simp add: authorize_def authorize_catch_def or_else_def Let_def example_defs)
  have failed_null: "fst (authorize ?null populated) =
      Inl (Failed_to_authorize ''Cannot read properties of null (reading access_token)'')"
    by (simp add: authorize_def authorize_catch_def Let_def example_defs)
  have creds: "truthy (TESLA_CLIENT_ID ?good) \<and> truthy (TESLA_CLIENT_SECRET ?good) \<and>
      truthy (TESLA_REFRESH_TOKEN ?good) \<and>
      token_endpoint ?good
        (trace populated @ [POST_token (str (TESLA_CLIENT_ID ?good)) (str (TESLA_CLIENT_SECRET ?good))
                        (str (TESLA_REFRESH_TOKEN ?good))]) = token_for 60"
    by (simp add: mock_def)
  have clk: "clock ?good h = 5000000" for h
    by (simp add: mock_def)
  show ?thesis
    using authorize_failure_keeps_token [of ?bad populated] failed
      authorize_failure_keeps_token [of ?null populated] failed_null
      authorize_failure_keeps_token [of ?good populated] creds clk
    by (simp add: populated_def token_for_def)
qed

text \<open>
  C4 as stated fails for a malformed answer: a 2xx answer with neither \<^verbatim>\<open>access_token\<close>
  nor \<^verbatim>\<open>expires_in\<close> makes \<^verbatim>\<open>authorize\<close> return normally, and the token held before
  and its expiry are overwritten.
\<close>

theorem authorize_malformed_counterexample:
  "accessToken populated = Some ''tok'' \<and>
   tokenExpiration populated = Num 3601000 \<and>
   fst (authorize (mock 5000000 (Inr (Body \<lparr>access_token = None, expires_in = None\<rparr>)) (Inr (Body None)) (Inr (Body None)))
          populated) = Inr () \<and>
   accessToken (snd (authorize (mock 5000000 (Inr (Body \<lparr>access_token = None, expires_in = None\<rparr>)) (Inr (Body None)) (Inr (Body None)))
          populated)) = None \<and>
   tokenExpiration (snd (authorize (mock 5000000 (Inr (Body \<lparr>access_token = None, expires_in = None\<rparr>)) (Inr (Body None)) (Inr (Body None)))
          populated)) = NaN"
  by (simp add: authorize_def Let_def example_defs)

section \<open>The vehicle cache\<close>

text \<open>
  C2, as the code has it. The cache read \<^verbatim>\<open>getVehicles(forceRefresh)\<close> calls the list
  operation of the service, \<^verbatim>\<open>teslaService.getVehicles()\<close>, exactly when \<open>forceRefresh\<close>
  is set, or the cache is empty, or the cache is older than 60 seconds (strictly), and then
  it calls it exactly once. Otherwise it returns the cached vehicles and leaves the whole
  state, the history of requests included, as it was. The requests that one such call sends
  are a token request, exactly when no token is held or the held one has expired and the
  three credentials are set, followed by a list request, exactly when a token was obtained
  and the application is registered. When the service answers with a list, that list is
  returned, it replaces the cache, and the instant of the fetch becomes the clock's reading
  at the start of the read.
\<close>

theorem getVehicles_refresh_policy:
  "list_calls (snd (getVehicles f c w)) =
     list_calls w +
       (if f \<or> vehiclesCache w = [] \<or> 60000 < clock c (trace w) - lastVehicleFetch w
        then 1 else 0) \<and>
   (\<not> (f \<or> vehiclesCache w = [] \<or> 60000 < clock c (trace w) - lastVehicleFetch w) \<longrightarrow>
      getVehicles f c w = (vehiclesCache w, w)) \<and>
   ((f \<or> vehiclesCache w = [] \<or> 60000 < clock c (trace w) - lastVehicleFetch w) \<longrightarrow>
      requests (trace (snd (getVehicles f c w))) =
        requests (trace w) @
        (if (\<not> truthy (accessToken w) \<or>
             js_ge (clock c (trace w @ [Call_getVehicles])) (tokenExpiration w)) \<and>
            truthy (TESLA_CLIENT_ID c) \<and> truthy (TESLA_CLIENT_SECRET c) \<and>
            truthy (TESLA_REFRESH_TOKEN c)
         then [POST_token (str (TESLA_CLIENT_ID c)) (str (TESLA_CLIENT_SECRET c))
                 (str (TESLA_REFRESH_TOKEN c))]
         else []) @
        (case fst (getAccessToken c (w\<lparr>trace := trace w @ [Call_getVehicles]\<rparr>)) of
           Inr token \<Rightarrow> if isRegistered w then [GET_vehicles token] else []
         | Inl e \<Rightarrow> [])) \<and>
   ((f \<or> vehiclesCache w = [] \<or> 60000 < clock c (trace w) - lastVehicleFetch w) \<longrightarrow>
      fst (TeslaService_getVehicles c w) = Inr fetched \<longrightarrow>
        fst (getVehicles f c w) = fetched \<and>
        vehiclesCache (snd (getVehicles f c w)) = fetched \<and>
        lastVehicleFetch (snd (getVehicles f c w)) = clock c (trace w))"
proof -
  have cond: "needs_fetch f c w \<longleftrightarrow>
      f \<or> vehiclesCache w = [] \<or> 60000 < clock c (trace w) - lastVehicleFetch w"
    by (simp add: needs_fetch_def CACHE_TTL_def)
  have calls: "list_calls (snd (getVehicles f c w)) =
      list_calls w + (if needs_fetch f c w then 1 else 0)"
    using getVehicles_observations [of f c w] by simp
  have fresh: "\<not> needs_fetch f c w \<longrightarrow> getVehicles f c w = (vehiclesCache w, w)"
    by (simp add: getVehicles_fresh)
  have sent: "needs_fetch f c w \<longrightarrow>
      requests (trace (snd (getVehicles f c w))) =
        requests (trace w) @
        (if (\<not> truthy (accessToken w) \<or>
             js_ge (clock c (trace w @ [Call_getVehicles])) (tokenExpiration w)) \<and>
            truthy (TESLA_CLIENT_ID c) \<and> truthy (TESLA_CLIENT_SECRET c) \<and>
            truthy (TESLA_REFRESH_TOKEN c)
         then [POST_token (str (TESLA_CLIENT_ID c)) (str (TESLA_CLIENT_SECRET c))
                 (str (TESLA_REFRESH_TOKEN c))]
         else []) @
        (case fst (getAccessToken c (w\<lparr>trace := trace w @ [Call_getVehicles]\<rparr>)) of
           Inr token \<Rightarrow> if isRegistered w then [GET_vehicles token] else []
         | Inl e \<Rightarrow> [])"
    using getVehicles_requests [of f c w] by simp
  have fetched: "needs_fetch f c w \<longrightarrow> fst (TeslaService_getVehicles c w) = Inr fetched \<longrightarrow>
        fst (getVehicles f c w) = fetched \<and>
        vehiclesCache (snd (getVehicles f c w)) = fetched \<and>
        lastVehicleFetch (snd (getVehicles f c w)) = clock c (trace w)"
    by (cases "TeslaService_getVehicles c w") (simp add: getVehicles_fetched)
  from calls fresh sent fetched show ?thesis
    unfolding cond by (intro conjI)
qed

theorem getVehicles_refresh_policy_witness:
  "getVehicles False (mock 60000 (token_for 3600) (Inr (Body (Some []))) (Inr (Body None))) populated
     = ([car], populated) \<and>
   list_calls (snd (getVehicles False (mock 62000 (token_for 3600) (Inr (Body (Some []))) (Inr (Body None))) populated))
     = list_calls populated + 1 \<and>
   requests (trace (snd (getVehicles False (mock 62000 (token_for 3600) (Inr (Body (Some []))) (Inr (Body None))) populated)))
     = requests (trace populated) @ [GET_vehicles ''tok''] \<and>
   fst (getVehicles False (mock 62000 (token_for 3600) (Inr (Body (Some []))) (Inr (Body None))) populated) = [] \<and>
   lastVehicleFetch (snd (getVehicles False (mock 62000 (token_for 3600) (Inr (Body (Some []))) (Inr (Body None))) populated))
     = 62000 \<and>
   list_calls (snd (getVehicles True (mock 1000 (token_for 3600) (Inr (Body (Some [car, car]))) (Inr (Body None))) populated))
     = list_calls populated + 1 \<and>
   vehiclesCache (snd (getVehicles True (mock 1000 (token_for 3600) (Inr (Body (Some [car, car]))) (Inr (Body None))) populated))
     = [car, car]"
proof -
  let ?c60 = "mock 60000 (token_for 3600) (Inr (Body (Some []))) (Inr (Body None))"
  let ?c62 = "mock 62000 (token_for 3600) (Inr (Body (Some []))) (Inr (Body None))"
  let ?c1 = "mock 1000 (token_for 3600) (Inr (Body (Some [car, car]))) (Inr (Body None))"
  have fresh: "\<not> (False \<or> vehiclesCache populated = [] \<or>
      60000 < clock ?c60 (trace populated) - lastVehicleFetch populated)"
    by (simp add: example_defs)
  have stale: "False \<or> vehiclesCache populated = [] \<or>
      60000 < clock ?c62 (trace populated) - lastVehicleFetch populated"
    by (simp add: example_defs)
  have held: "\<not> ((\<not> truthy (accessToken populated) \<or>
        js_ge (clock ?c62 (trace populated @ [Call_getVehicles])) (tokenExpiration populated)) \<and>
      truthy (TESLA_CLIENT_ID ?c62) \<and> truthy (TESLA_CLIENT_SECRET ?c62) \<and>
      truthy (TESLA_REFRESH_TOKEN ?c62))"
    by (simp add: example_defs)
  have tok: "fst (getAccessToken ?c62 (populated\<lparr>trace := trace populated @ [Call_getVehicles]\<rparr>))
      = Inr ''tok''"
    by (simp add: service_defs example_defs)
  have reg: "isRegistered populated"
    by (simp add: populated_def)
  have got: "fst (TeslaService_getVehicles ?c62 populated) = Inr []"
    by (simp add: service_defs example_defs)
  have got2: "fst (TeslaService_getVehicles ?c1 populated) = Inr [car, car]"
    by (simp add: service_defs example_defs)
  have clk: "clock ?c62 (trace populated) = 62000"
    by (simp add: mock_def)
  note at60 = getVehicles_refresh_policy [of False ?c60 populated "[]"]
  note at62 = getVehicles_refresh_policy [of False ?c62 populated "[]"]
  note forced = getVehicles_refresh_policy [of True ?c1 populated "[car, car]"]
  have a: "getVehicles False ?c60 populated = ([car], populated)"
    using at60 [THEN conjunct2, THEN conjunct1, THEN mp, OF fresh] by (simp add: populated_def)
  have b: "list_calls (snd (getVehicles False ?c62 populated)) = list_calls populated + 1"
    using at62 [THEN conjunct1] unfolding if_P [OF stale] by simp
  have d: "requests (trace (snd (getVehicles False ?c62 populated))) =
      requests (trace populated) @ [GET_vehicles ''tok'']"
    using at62 [THEN conjunct2, THEN conjunct2, THEN conjunct1, THEN mp, OF stale]
    unfolding if_not_P [OF held] tok by (simp add: reg)
  have e: "fst (getVehicles False ?c62 populated) = [] \<and>
      lastVehicleFetch (snd (getVehicles False ?c62 populated)) = 62000"
    using at62 [THEN conjunct2, THEN conjunct2, THEN conjunct2, THEN mp, OF stale, THEN mp, OF got]
    by (simp add: clk)
  have g: "list_calls (snd (getVehicles True ?c1 populated)) = list_calls populated + 1 \<and>
      vehiclesCache (snd (getVehicles True ?c1 populated)) = [car, car]"
    using forced [THEN conjunct1] forced [THEN conjunct2, THEN conjunct2, THEN conjunct2] got2
    by simp
  show ?thesis
    using a b d e g by simp
qed

text \<open>
  C2 as stated fails when network calls are counted. A forced read in a process that has just
  started sends two requests, one for the token and one for the list. A forced read in an
  unregistered process that holds a token sends no request at all: the remote list call is
  not performed although \<open>forceRefresh\<close> is set.
\<close>

theorem getVehicles_network_calls_counterexample:
  "requests (trace (snd (getVehicles True
      (mock 2000 (token_for 3600) (Inr (Body (Some [car]))) (Inr (Body None))) (startup True)))) =
     [POST_token ''client'' ''secret'' ''refresh'', GET_vehicles ''tok''] \<and>
   requests (trace (snd (getVehicles True
      (mock 2000 (token_for 3600) (Inr (Body (Some [car]))) (Inr (Body None)))
      ((startup False)\<lparr>accessToken := Some ''tok'', tokenExpiration := Num 3601000\<rparr>)))) = []"
  by (simp add: service_defs example_defs)



section \<open>The remote vehicle client\<close>

text \<open>
  C5, as the code has it. \<^verbatim>\<open>teslaService.getVehicles\<close> first obtains an access token; a
  failure to obtain one is passed on as it is. With a token, an unregistered application
  makes the call fail without any list request being sent; a registered one sends one list
  request with the token and returns the vehicle array of the response's body, or the empty
  list when the body has none, and fails with the one fixed error
  \<^verbatim>\<open>Failed to fetch vehicles\<close> whenever the list request fails, whatever the status and
  body were, and also when the 2xx answer has no body whose properties can be read
  (\<^verbatim>\<open>null\<close>).
\<close>

theorem TeslaService_getVehicles_outcomes:
  "(\<forall>e w1. getAccessToken c (w\<lparr>trace := trace w @ [Call_getVehicles]\<rparr>) = (Inl e, w1) \<longrightarrow>
      TeslaService_getVehicles c w = (Inl e, w1)) \<and>
   (\<forall>token w1. getAccessToken c (w\<lparr>trace := trace w @ [Call_getVehicles]\<rparr>) = (Inr token, w1) \<longrightarrow>
      (\<not> isRegistered w \<longrightarrow>
         (\<exists>e. fst (TeslaService_getVehicles c w) = Inl e) \<and>
         snd (TeslaService_getVehicles c w) = w1) \<and>
      (isRegistered w \<longrightarrow>
         snd (TeslaService_getVehicles c w) = w1\<lparr>trace := trace w1 @ [GET_vehicles token]\<rparr> \<and>
         (\<forall>vs. vehicles_endpoint c (trace w1 @ [GET_vehicles token]) = Inr (Body (Some vs)) \<longrightarrow>
            fst (TeslaService_getVehicles c w) = Inr vs) \<and>
         (vehicles_endpoint c (trace w1 @ [GET_vehicles token]) = Inr (Body None) \<longrightarrow>
            fst (TeslaService_getVehicles c w) = Inr []) \<and>
         (vehicles_endpoint c (trace w1 @ [GET_vehicles token]) = Inr Null_body \<longrightarrow>
            fst (TeslaService_getVehicles c w) = Inl Failed_to_fetch_vehicles) \<and>
         (\<forall>e. vehicles_endpoint c (trace w1 @ [GET_vehicles token]) = Inl e \<longrightarrow>
            fst (TeslaService_getVehicles c w) = Inl Failed_to_fetch_vehicles))) \<and>
   (\<not> isRegistered w \<longrightarrow>
      list_requests (trace (snd (TeslaService_getVehicles c w))) = list_requests (trace w))"
proof -
  let ?w0 = "w\<lparr>trace := trace w @ [Call_getVehicles]\<rparr>"
  have reg: "isRegistered (snd (getAccessToken c ?w0)) = isRegistered w"
    using getAccessToken_frame [of c ?w0] by simp
  have failed: "TeslaService_getVehicles c w = (Inl e, w1)"
    if "getAccessToken c ?w0 = (Inl e, w1)" for e w1
    using that by (simp add: TeslaService_getVehicles_def)
  have unregistered: "(\<exists>e. fst (TeslaService_getVehicles c w) = Inl e) \<and>
      snd (TeslaService_getVehicles c w) = w1"
    if "getAccessToken c ?w0 = (Inr token, w1)" "\<not> isRegistered w" for token w1
    using that reg by (simp add: TeslaService_getVehicles_def)
  have registered: "snd (TeslaService_getVehicles c w) = w1\<lparr>trace := trace w1 @ [GET_vehicles token]\<rparr> \<and>
      (\<forall>vs. vehicles_endpoint c (trace w1 @ [GET_vehicles token]) = Inr (Body (Some vs)) \<longrightarrow>
         fst (TeslaService_getVehicles c w) = Inr vs) \<and>
      (vehicles_endpoint c (trace w1 @ [GET_vehicles token]) = Inr (Body None) \<longrightarrow>
         fst (TeslaService_getVehicles c w) = Inr []) \<and>
      (vehicles_endpoint c (trace w1 @ [GET_vehicles token]) = Inr Null_body \<longrightarrow>
         fst (TeslaService_getVehicles c w) = Inl Failed_to_fetch_vehicles) \<and>
      (\<forall>e. vehicles_endpoint c (trace w1 @ [GET_vehicles token]) = Inl e \<longrightarrow>
         fst (TeslaService_getVehicles c w) = Inl Failed_to_fetch_vehicles)"
    if "getAccessToken c ?w0 = (Inr token, w1)" "isRegistered w" for token w1
    using that reg
    by (simp add: TeslaService_getVehicles_def getVehicles_catch_def Let_def split: sum.splits body.splits)
  have no_request: "list_requests (trace (snd (TeslaService_getVehicles c w))) = list_requests (trace w)"
    if "\<not> isRegistered w"
  proof -
    have "list_requests (trace (snd (getAccessToken c ?w0))) = list_requests (trace w)"
      using getAccessToken_observations [of c ?w0] by (simp add: list_requests_append)
    then show ?thesis
      using that reg
      by (simp add: TeslaService_getVehicles_def case_prod_beta split: sum.splits body.splits)
  qed
  show ?thesis
    using failed unregistered registered no_request by blast
qed

theorem TeslaService_getVehicles_outcomes_witness:
  "TeslaService_getVehicles (mock 2000 (token_for 3600) (Inr (Body (Some [car, decoy]))) (Inr (Body None))) populated =
     (Inr [car, decoy], populated\<lparr>trace := trace populated @ [Call_getVehicles, GET_vehicles ''tok'']\<rparr>) \<and>
   fst (TeslaService_getVehicles (mock 2000 (token_for 3600) (Inr (Body None)) (Inr (Body None))) populated) = Inr [] \<and>
   fst (TeslaService_getVehicles (mock 2000 (token_for 3600) (Inl (status_error 500 ''down'')) (Inr (Body None))) populated)
     = Inl Failed_to_fetch_vehicles \<and>
   fst (TeslaService_getVehicles (mock 2000 (token_for 3600) (Inr Null_body) (Inr (Body None))) populated)
     = Inl Failed_to_fetch_vehicles \<and>
   list_requests (trace (snd (TeslaService_getVehicles (mock 2000 (token_for 3600) (Inr (Body (Some [car]))) (Inr (Body None)))
     (populated\<lparr>isRegistered := False\<rparr>)))) = [''tok''] \<and>
   fst (TeslaService_getVehicles (mock 2000 (Inl (status_error 401 ''denied'')) (Inr (Body (Some [car]))) (Inr (Body None)))
     (startup True)) = Inl (Failed_to_authorize ''denied'')"
proof -
  let ?w0 = "populated\<lparr>trace := trace populated @ [Call_getVehicles]\<rparr>"
  let ?u0 = "populated\<lparr>isRegistered := False, trace := trace populated @ [Call_getVehicles]\<rparr>"
  let ?s0 = "(startup True)\<lparr>trace := trace (startup True) @ [Call_getVehicles]\<rparr>"
  have tok: "getAccessToken c ?w0 = (Inr ''tok'', ?w0)" if "clock c = (\<lambda>h. 2000)" for c
    using that by (simp add: getAccessToken_def needs_authorize_def populated_def)
  have utok: "getAccessToken c ?u0 = (Inr ''tok'', ?u0)" if "clock c = (\<lambda>h. 2000)" for c
    using that by (simp add: getAccessToken_def needs_authorize_def populated_def)
  have denied: "getAccessToken (mock 2000 (Inl (status_error 401 ''denied'')) (Inr (Body (Some [car]))) (Inr (Body None))) ?s0
      = (Inl (Failed_to_authorize ''denied''),
         ?s0\<lparr>trace := trace ?s0 @ [POST_token ''client'' ''secret'' ''refresh'']\<rparr>)"
    by (simp add: service_defs or_else_def example_defs)
  have clk: "clock (mock 2000 a b d) = (\<lambda>h. 2000)" for a b d
    by (simp add: mock_def)
  have reg: "isRegistered populated" "\<not> isRegistered (populated\<lparr>isRegistered := False\<rparr>)"
    by (simp_all add: populated_def)
  have ep: "vehicles_endpoint (mock 2000 a b d) h = b" for a b d h
    by (simp add: mock_def)
  show ?thesis
    using TeslaService_getVehicles_outcomes [of "mock 2000 (token_for 3600) (Inr (Body (Some [car, decoy]))) (Inr (Body None))" populated]
      TeslaService_getVehicles_outcomes [of "mock 2000 (token_for 3600) (Inr (Body None)) (Inr (Body None))" populated]
      TeslaService_getVehicles_outcomes [of "mock 2000 (token_for 3600) (Inl (status_error 500 ''down'')) (Inr (Body None))" populated]
      TeslaService_getVehicles_outcomes [of "mock 2000 (token_for 3600) (Inr Null_body) (Inr (Body None))" populated]
      TeslaService_getVehicles_outcomes [of "mock 2000 (token_for 3600) (Inr (Body (Some [car]))) (Inr (Body None))" "populated\<lparr>isRegistered := False\<rparr>"]
      TeslaService_getVehicles_outcomes [of "mock 2000 (Inl (status_error 401 ''denied'')) (Inr (Body (Some [car]))) (Inr (Body None))" "startup True"]
      tok [OF clk] utok [OF clk] denied reg
    by (simp add: ep prod_eq_iff) (simp add: populated_def)
qed

text \<open>
  C5 as stated fails. In an unregistered process with no token the call first sends a token
  request, so the network is used before the registration check; and the error it ends with
  is the very error that a list request answered with status 500 or 404 ends with: it carries
  neither status nor body and does not tell a missing registration apart.
\<close>

theorem TeslaService_getVehicles_counterexample:
  "TeslaService_getVehicles (mock 2000 (token_for 3600) (Inr (Body (Some [car]))) (Inr (Body None))) (startup False) =
     (Inl Failed_to_fetch_vehicles,
      \<lparr>accessToken = Some ''tok'', tokenExpiration = Num 3602000, isRegistered = False,
       vehiclesCache = [], lastVehicleFetch = 0,
       trace = [Call_getVehicles, POST_token ''client'' ''secret'' ''refresh'']\<rparr>) \<and>
   fst (TeslaService_getVehicles (mock 2000 (token_for 3600) (Inl (status_error 500 ''down'')) (Inr (Body None)))
     (startup True)) = Inl Failed_to_fetch_vehicles \<and>
   fst (TeslaService_getVehicles (mock 2000 (token_for 3600) (Inl (status_error 404 ''gone'')) (Inr (Body None)))
     (startup True)) = Inl Failed_to_fetch_vehicles"
  by (simp add: service_defs example_defs)

section \<open>The tools\<close>

text \<open>
  C6, as the code has it. The \<^verbatim>\<open>wake_up\<close> tool prints its argument as a string and
  refuses the empty string with \<^verbatim>\<open>Vehicle ID is required\<close> before it reads the cache.
  Otherwise it reads the cache (under the freshness policy) and takes the first vehicle, in
  the order of the cache, whose \<^verbatim>\<open>id\<close>, printed \<^verbatim>\<open>vehicle_id\<close> or VIN equals the string:
  the answer is built from that vehicle and from the result of \<^verbatim>\<open>teslaService.wakeUp\<close>.
  When no vehicle matches on any of the three fields the tool fails with
  \<^verbatim>\<open>Vehicle ... not found\<close>, and neither \<^verbatim>\<open>teslaService.wakeUp\<close> is called nor a wake
  request sent.
\<close>

theorem wake_up_resolution:
  fixes arg c w pre v post
  defines "tok \<equiv> String_arg arg"
    and "vehicles \<equiv> fst (getVehicles False c w)"
    and "w1 \<equiv> snd (getVehicles False c w)"
  shows
  "(tok = [] \<longrightarrow> CallTool ''wake_up'' arg c w = (Inl Vehicle_ID_is_required, w)) \<and>
   (tok \<noteq> [] \<and>
    (\<forall>v \<in> set vehicles. id_v v \<noteq> tok \<and> String_of_int (vehicle_id v) \<noteq> tok \<and> vin v \<noteq> tok) \<longrightarrow>
      CallTool ''wake_up'' arg c w = (Inl (Vehicle_not_found tok), w1) \<and>
      wake_calls (trace (snd (CallTool ''wake_up'' arg c w))) = wake_calls (trace w) \<and>
      wake_paths (trace (snd (CallTool ''wake_up'' arg c w))) = wake_paths (trace w)) \<and>
   (tok \<noteq> [] \<and> vehicles = pre @ v # post \<and>
      (\<forall>u \<in> set pre. id_v u \<noteq> tok \<and> String_of_int (vehicle_id u) \<noteq> tok \<and> vin u \<noteq> tok) \<and>
      (id_v v = tok \<or> String_of_int (vehicle_id v) = tok \<or> vin v = tok) \<longrightarrow>
        find (matches tok) vehicles = Some v \<and>
        CallTool ''wake_up'' arg c w =
          (case TeslaService_wakeUp tok c w1 of
             (Inr result, w2) \<Rightarrow> (Inr (wake_up_text v result), w2)
           | (Inl e, w2) \<Rightarrow> (Inl (Failed_to_wake_up_vehicle e), w2)))"
proof -
  have empty: "tok = [] \<longrightarrow> CallTool ''wake_up'' arg c w = (Inl Vehicle_ID_is_required, w)"
    unfolding tok_def by (simp add: wake_up_empty)
  have missing: "CallTool ''wake_up'' arg c w = (Inl (Vehicle_not_found tok), w1) \<and>
      wake_calls (trace (snd (CallTool ''wake_up'' arg c w))) = wake_calls (trace w) \<and>
      wake_paths (trace (snd (CallTool ''wake_up'' arg c w))) = wake_paths (trace w)"
    if "tok \<noteq> []"
      and "\<forall>v \<in> set vehicles. id_v v \<noteq> tok \<and> String_of_int (vehicle_id v) \<noteq> tok \<and> vin v \<noteq> tok"
  proof -
    have "find (matches tok) vehicles = None"
      using that(2) by (simp add: find_None_iff matches_def)
    then have "CallTool ''wake_up'' arg c w = (Inl (Vehicle_not_found tok), w1)"
      using that(1) wake_up_not_found [of arg c w]
      unfolding tok_def vehicles_def w1_def by simp
    then show ?thesis
      using getVehicles_observations [of False c w] unfolding w1_def by simp
  qed
  have found: "find (matches tok) vehicles = Some v \<and>
      CallTool ''wake_up'' arg c w =
        (case TeslaService_wakeUp tok c w1 of
           (Inr result, w2) \<Rightarrow> (Inr (wake_up_text v result), w2)
         | (Inl e, w2) \<Rightarrow> (Inl (Failed_to_wake_up_vehicle e), w2))"
    if "tok \<noteq> []" and "vehicles = pre @ v # post"
      and "\<forall>u \<in> set pre. id_v u \<noteq> tok \<and> String_of_int (vehicle_id u) \<noteq> tok \<and> vin u \<noteq> tok"
      and "id_v v = tok \<or> String_of_int (vehicle_id v) = tok \<or> vin v = tok"

  proof -
    have "find (matches tok) (pre @ v # post) = Some v"
      using that(3,4) by (intro find_first_match) (auto simp add: matches_def)
    then have f: "find (matches tok) vehicles = Some v"
      using that(2) by simp
    then show ?thesis
      using that(1) wake_up_found [of arg c w v]
      unfolding tok_def vehicles_def w1_def by simp
  qed
  show ?thesis
    using empty missing found by blast
qed

theorem wake_up_resolution_witness:
  "fst (CallTool ''wake_up'' (Some ''1'')
         (mock 2000 (token_for 3600) (Inr (Body None)) (Inr (Body (Some car)))) populated)
     = Inr ''Successfully woke up Car (state: online)'' \<and>
   fst (CallTool ''wake_up'' (Some ''12345'')
         (mock 2000 (token_for 3600) (Inr (Body None)) (Inr (Body (Some car)))) populated)
     = Inr ''Successfully woke up Car (state: online)'' \<and>
   fst (CallTool ''wake_up'' (Some ''5YJ3E1EA7KF000001'')
         (mock 2000 (token_for 3600) (Inr (Body None)) (Inr (Body (Some car)))) populated)
     = Inr ''Successfully woke up Car (state: online)'' \<and>
   CallTool ''wake_up'' (Some ''unrelated'')
         (mock 2000 (token_for 3600) (Inr (Body None)) (Inr (Body (Some car)))) populated
     = (Inl (Vehicle_not_found ''unrelated''), populated) \<and>
   CallTool ''wake_up'' None
         (mock 2000 (token_for 3600) (Inr (Body None)) (Inr (Body (Some car)))) populated
     = (Inl (Vehicle_not_found ''undefined''), populated)"
proof -
  let ?c = "mock 2000 (token_for 3600) (Inr (Body None)) (Inr (Body (Some car)))"
  have cache: "fst (getVehicles False ?c populated) = [] @ car # []"
    "snd (getVehicles False ?c populated) = populated"
    by (simp_all add: populated_fresh)
  have fields: "id_v car = ''1''" "String_of_int (vehicle_id car) = ''12345''"
    "vin car = ''5YJ3E1EA7KF000001''"
    by (simp_all add: car_def print_defs)
  have msg: "wake_up_text car (Some car) = ''Successfully woke up Car (state: online)''"
    by (simp add: wake_up_text_def or_else_def car_def)
  show ?thesis
    using wake_up_resolution [of "Some ''1''" ?c populated "[]" car "[]"]
      wake_up_resolution [of "Some ''12345''" ?c populated "[]" car "[]"]
      wake_up_resolution [of "Some ''5YJ3E1EA7KF000001''" ?c populated "[]" car "[]"]
      wake_up_resolution [of "Some ''unrelated''" ?c populated "[]" car "[]"]
      wake_up_resolution [of None ?c populated "[]" car "[]"]
    by (simp add: cache fields msg populated_wakeUp)
qed

text \<open>
  C6 as stated fails in two places. With the vehicles \<open>decoy\<close> (numeric identifier 1) and
  \<open>car\<close> (\<^verbatim>\<open>id\<close> "1", numeric identifier 12345) cached in this order, a lookup by "1"
  finds \<open>decoy\<close> and a lookup by "12345" finds \<open>car\<close>: the strings of one vehicle need
  not lead to the same vehicle. And the empty string, which matches no vehicle, is refused
  with \<^verbatim>\<open>Vehicle ID is required\<close>, not with the not-found error.
\<close>

theorem wake_up_resolution_counterexample:
  "fst (CallTool ''wake_up'' (Some ''1'')
         (mock 2000 (token_for 3600) (Inr (Body None)) (Inr (Body None)))
         (populated\<lparr>vehiclesCache := [decoy, car]\<rparr>))
     = Inr ''Failed to wake up Decoy'' \<and>
   fst (CallTool ''wake_up'' (Some ''12345'')
         (mock 2000 (token_for 3600) (Inr (Body None)) (Inr (Body None)))
         (populated\<lparr>vehiclesCache := [decoy, car]\<rparr>))
     = Inr ''Failed to wake up Car'' \<and>
   find (matches ''1'') [decoy, car] = Some decoy \<and>
   find (matches ''12345'') [decoy, car] = Some car \<and>
   id_v car = ''1'' \<and> vehicle_id car = 12345 \<and> decoy \<noteq> car \<and>
   CallTool ''wake_up'' (Some [])
         (mock 2000 (token_for 3600) (Inr (Body None)) (Inr (Body None))) populated
     = (Inl Vehicle_ID_is_required, populated)"
  by (simp add: service_defs tool_defs print_defs example_defs)

text \<open>
  C7, as the code has it. The vehicle found in the cache only validates the request: the
  \<^verbatim>\<open>wake_up\<close> tool hands the string the user supplied to \<^verbatim>\<open>teslaService.wakeUp\<close>, which
  puts it into the path of the wake request unchanged. So a call of the tool sends at most
  one wake request, its path parameter is the user's string, and it is sent whenever the
  string is not empty, some cached vehicle matches it, a token is obtained and the
  application is registered.
\<close>

theorem wake_up_path_parameter:
  fixes arg c w token w2
  defines "tok \<equiv> String_arg arg"
    and "w1 \<equiv> snd (getVehicles False c w)"
  shows
  "(wake_paths (trace (snd (CallTool ''wake_up'' arg c w))) = wake_paths (trace w) \<or>
    wake_paths (trace (snd (CallTool ''wake_up'' arg c w))) = wake_paths (trace w) @ [tok]) \<and>
   (tok \<noteq> [] \<and>
    (\<exists>v \<in> set (fst (getVehicles False c w)).
        id_v v = tok \<or> String_of_int (vehicle_id v) = tok \<or> vin v = tok) \<and>
    getAccessToken c (w1\<lparr>trace := trace w1 @ [Call_wakeUp tok]\<rparr>) = (Inr token, w2) \<and>
    isRegistered w \<longrightarrow>
      trace (snd (CallTool ''wake_up'' arg c w)) = trace w2 @ [POST_wake_up tok token])"
proof -
  have same: "wake_paths (trace w1) = wake_paths (trace w)" "isRegistered w1 = isRegistered w"
    using getVehicles_observations [of False c w] unfolding w1_def by simp_all
  have paths: "wake_paths (trace (snd (CallTool ''wake_up'' arg c w))) = wake_paths (trace w) \<or>
      wake_paths (trace (snd (CallTool ''wake_up'' arg c w))) = wake_paths (trace w) @ [tok]"
    using same(1) TeslaService_wakeUp_observations [of tok c w1]
    unfolding tok_def w1_def by (auto simp add: wake_up_state)
  have sent: "trace (snd (CallTool ''wake_up'' arg c w)) = trace w2 @ [POST_wake_up tok token]"
    if "tok \<noteq> []"
      and "\<exists>v \<in> set (fst (getVehicles False c w)).
             id_v v = tok \<or> String_of_int (vehicle_id v) = tok \<or> vin v = tok"
      and "getAccessToken c (w1\<lparr>trace := trace w1 @ [Call_wakeUp tok]\<rparr>) = (Inr token, w2)"
      and "isRegistered w"
  proof -
    have "find (matches tok) (fst (getVehicles False c w)) \<noteq> None"
      using that(2) by (auto simp add: find_None_iff matches_def)
    then have st: "snd (CallTool ''wake_up'' arg c w) = snd (TeslaService_wakeUp tok c w1)"
      using that(1) unfolding tok_def w1_def by (auto simp add: wake_up_state)
    have "isRegistered w2"
      using getAccessToken_frame [of c "w1\<lparr>trace := trace w1 @ [Call_wakeUp tok]\<rparr>"]
        that(3,4) same(2) by simp
    then have "trace (snd (TeslaService_wakeUp tok c w1)) = trace w2 @ [POST_wake_up tok token]"
      using that(3) by (simp add: TeslaService_wakeUp_def Let_def split: sum.splits body.splits)
    then show ?thesis using st by simp
  qed
  show ?thesis
    using paths sent by blast
qed

theorem wake_up_path_parameter_witness:
  "trace (snd (CallTool ''wake_up'' (Some ''12345'')
         (mock 2000 (token_for 3600) (Inr (Body None)) (Inr (Body (Some car)))) populated))
     = trace populated @ [Call_wakeUp ''12345'', POST_wake_up ''12345'' ''tok''] \<and>
   trace (snd (CallTool ''wake_up'' (Some ''5YJ3E1EA7KF000001'')
         (mock 2000 (token_for 3600) (Inr (Body None)) (Inr (Body (Some car)))) populated))
     = trace populated @ [Call_wakeUp ''5YJ3E1EA7KF000001'', POST_wake_up ''5YJ3E1EA7KF000001'' ''tok'']"
proof -
  let ?c = "mock 2000 (token_for 3600) (Inr (Body None)) (Inr (Body (Some car)))"
  have cache: "fst (getVehicles False ?c populated) = [car]"
    "snd (getVehicles False ?c populated) = populated"
    by (simp_all add: populated_fresh)
  have fields: "id_v car = ''1''" "String_of_int (vehicle_id car) = ''12345''"
    "vin car = ''5YJ3E1EA7KF000001''"
    by (simp_all add: car_def print_defs)
  have tok: "getAccessToken ?c (populated\<lparr>trace := trace populated @ [Call_wakeUp p]\<rparr>)
      = (Inr ''tok'', populated\<lparr>trace := trace populated @ [Call_wakeUp p]\<rparr>)" for p
    by (simp add: getAccessToken_def needs_authorize_def mock_def populated_def)
  have reg: "isRegistered populated"
    by (simp add: populated_def)
  show ?thesis
    using wake_up_path_parameter [of "Some ''12345''" ?c populated "''tok''"
        "populated\<lparr>trace := trace populated @ [Call_wakeUp ''12345'']\<rparr>"]
      wake_up_path_parameter [of "Some ''5YJ3E1EA7KF000001''" ?c populated "''tok''"
        "populated\<lparr>trace := trace populated @ [Call_wakeUp ''5YJ3E1EA7KF000001'']\<rparr>"]
    by (simp add: cache fields tok reg)
qed

text \<open>
  C7 as stated fails: "1" and "12345" both find the vehicle \<open>car\<close>, yet the wake requests
  carry the path parameters "1" and "12345": the parameter follows the form the user chose,
  it is not one identifier of the vehicle found.
\<close>

theorem wake_up_path_parameter_counterexample:
  "find (matches ''1'') (vehiclesCache populated) = Some car \<and>
   find (matches ''12345'') (vehiclesCache populated) = Some car \<and>
   wake_paths (trace (snd (CallTool ''wake_up'' (Some ''1'')
      (mock 2000 (token_for 3600) (Inr (Body None)) (Inr (Body (Some car)))) populated))) = [''1''] \<and>
   wake_paths (trace (snd (CallTool ''wake_up'' (Some ''12345'')
      (mock 2000 (token_for 3600) (Inr (Body None)) (Inr (Body (Some car)))) populated))) = [''12345'']"
  by (simp add: service_defs tool_defs print_defs example_defs)

text \<open>
  C8, as the code has it. The \<^verbatim>\<open>debug_vehicles\<close> tool reads the cache like every other
  handler, through \<^verbatim>\<open>getVehicles()\<close>: it never forces a refresh, but it calls the list
  operation of the service once when the cache is empty or older than 60 seconds, and the
  state after the tool is the state after that read. With a cache that is neither empty nor
  stale nothing changes and no request is sent. The text it answers with is built from the
  vehicles the read returned, which are those in the cache afterwards, and shows the
  \<^verbatim>\<open>id\<close>, \<^verbatim>\<open>vehicle_id\<close>, VIN and state of each of them. The requests the tool sends
  with an empty or stale cache are a token request, exactly when no token is held or the held
  one has expired and the three credentials are set, followed by a list request, exactly when
  a token was obtained and the application is registered.
\<close>

theorem debug_vehicles_reads_through_cache:
  "CallTool ''debug_vehicles'' arg c w =
     (Inr (debug_text (fst (getVehicles False c w))), snd (getVehicles False c w)) \<and>
   fst (getVehicles False c w) = vehiclesCache (snd (CallTool ''debug_vehicles'' arg c w)) \<and>
   list_calls (snd (CallTool ''debug_vehicles'' arg c w)) =
     list_calls w +
       (if vehiclesCache w = [] \<or> 60000 < clock c (trace w) - lastVehicleFetch w then 1 else 0) \<and>
   (vehiclesCache w \<noteq> [] \<and> clock c (trace w) - lastVehicleFetch w \<le> 60000 \<longrightarrow>
      CallTool ''debug_vehicles'' arg c w = (Inr (debug_text (vehiclesCache w)), w)) \<and>
   (\<forall>v \<in> set (fst (getVehicles False c w)).
      \<exists>before after. fst (CallTool ''debug_vehicles'' arg c w) =
        Inr (before @ ''- id: '' @ id_v v @ newline @
             ''- vehicle_id: '' @ String_of_int (vehicle_id v) @ newline @
             ''- vin: '' @ vin v @ newline @
             ''- state: '' @ state_v v @ after)) \<and>
   requests (trace (snd (CallTool ''debug_vehicles'' arg c w))) =
     requests (trace w) @
     (if vehiclesCache w = [] \<or> 60000 < clock c (trace w) - lastVehicleFetch w then
        (if (\<not> truthy (accessToken w) \<or>
             js_ge (clock c (trace w @ [Call_getVehicles])) (tokenExpiration w)) \<and>
            truthy (TESLA_CLIENT_ID c) \<and> truthy (TESLA_CLIENT_SECRET c) \<and>
            truthy (TESLA_REFRESH_TOKEN c)
         then [POST_token (str (TESLA_CLIENT_ID c)) (str (TESLA_CLIENT_SECRET c))
                 (str (TESLA_REFRESH_TOKEN c))]
         else []) @
        (case fst (getAccessToken c (w\<lparr>trace := trace w @ [Call_getVehicles]\<rparr>)) of
           Inr token \<Rightarrow> if isRegistered w then [GET_vehicles token] else []
         | Inl e \<Rightarrow> [])
      else [])"
proof -
  have res: "CallTool ''debug_vehicles'' arg c w =
      (Inr (debug_text (fst (getVehicles False c w))), snd (getVehicles False c w))"
    by (simp add: CallTool_def case_prod_beta)
  have cond: "needs_fetch False c w \<longleftrightarrow>
      vehiclesCache w = [] \<or> 60000 < clock c (trace w) - lastVehicleFetch w"
    by (simp add: needs_fetch_def CACHE_TTL_def)
  have calls: "list_calls (snd (getVehicles False c w)) =
      list_calls w + (if needs_fetch False c w then 1 else 0)"
    using getVehicles_observations [of False c w] by simp
  have fresh: "vehiclesCache w \<noteq> [] \<and> clock c (trace w) - lastVehicleFetch w \<le> 60000 \<longrightarrow>
      getVehicles False c w = (vehiclesCache w, w)"
    using getVehicles_fresh [of False c w] cond by auto
  have shown: "\<forall>v \<in> set (fst (getVehicles False c w)).
      \<exists>before after. debug_text (fst (getVehicles False c w)) =
        before @ ''- id: '' @ id_v v @ newline @
        ''- vehicle_id: '' @ String_of_int (vehicle_id v) @ newline @
        ''- vin: '' @ vin v @ newline @
        ''- state: '' @ state_v v @ after"
    using debug_text_contains by blast
  have kept: "fst (getVehicles False c w) =
      vehiclesCache (snd (CallTool ''debug_vehicles'' arg c w))"
    using getVehicles_returns_cache [of False c w] by (simp add: res)
  have calls': "list_calls (snd (CallTool ''debug_vehicles'' arg c w)) =
     list_calls w +
       (if vehiclesCache w = [] \<or> 60000 < clock c (trace w) - lastVehicleFetch w then 1 else 0)"
    using calls unfolding cond by (simp add: res)
  have fresh': "vehiclesCache w \<noteq> [] \<and> clock c (trace w) - lastVehicleFetch w \<le> 60000 \<longrightarrow>
      CallTool ''debug_vehicles'' arg c w = (Inr (debug_text (vehiclesCache w)), w)"
    using fresh by (simp add: res)
  have shown': "\<forall>v \<in> set (fst (getVehicles False c w)).
      \<exists>before after. fst (CallTool ''debug_vehicles'' arg c w) =
        Inr (before @ ''- id: '' @ id_v v @ newline @
             ''- vehicle_id: '' @ String_of_int (vehicle_id v) @ newline @
             ''- vin: '' @ vin v @ newline @
             ''- state: '' @ state_v v @ after)"
    using shown by (simp add: res)
  have sent: "requests (trace (snd (CallTool ''debug_vehicles'' arg c w))) =
     requests (trace w) @
     (if vehiclesCache w = [] \<or> 60000 < clock c (trace w) - lastVehicleFetch w then
        (if (\<not> truthy (accessToken w) \<or>
             js_ge (clock c (trace w @ [Call_getVehicles])) (tokenExpiration w)) \<and>
            truthy (TESLA_CLIENT_ID c) \<and> truthy (TESLA_CLIENT_SECRET c) \<and>
            truthy (TESLA_REFRESH_TOKEN c)
         then [POST_token (str (TESLA_CLIENT_ID c)) (str (TESLA_CLIENT_SECRET c))
                 (str (TESLA_REFRESH_TOKEN c))]
         else []) @
        (case fst (getAccessToken c (w\<lparr>trace := trace w @ [Call_getVehicles]\<rparr>)) of
           Inr token \<Rightarrow> if isRegistered w then [GET_vehicles token] else []
         | Inl e \<Rightarrow> [])
      else [])"
    using getVehicles_requests [of False c w] unfolding cond by (simp add: res)
  from res kept calls' fresh' shown' sent show ?thesis
    by (intro conjI)
qed

theorem debug_vehicles_reads_through_cache_witness:
  "CallTool ''debug_vehicles'' None (mock 2000 (token_for 3600) (Inr (Body None)) (Inr (Body None))) populated =
     (Inr (''Found 1 vehicles:'' @ newline @ newline @
           ''Vehicle: Car'' @ newline @ ''- id: 1'' @ newline @ ''- vehicle_id: 12345'' @ newline @
           ''- vin: 5YJ3E1EA7KF000001'' @ newline @ ''- state: online''), populated) \<and>
   list_calls (snd (CallTool ''debug_vehicles'' None
      (mock 2000 (token_for 3600) (Inr (Body None)) (Inr (Body None))) populated)) = list_calls populated \<and>
   requests (trace (snd (CallTool ''debug_vehicles'' None
      (mock 2000 (token_for 3600) (Inr (Body None)) (Inr (Body None))) populated))) = requests (trace populated) \<and>
   requests (trace (snd (CallTool ''debug_vehicles'' None
      (mock 62000 (token_for 3600) (Inr (Body None)) (Inr (Body None))) populated))) =
     requests (trace populated) @ [GET_vehicles ''tok'']"
proof -
  let ?c = "mock 2000 (token_for 3600) (Inr (Body None)) (Inr (Body None))"
  let ?c62 = "mock 62000 (token_for 3600) (Inr (Body None)) (Inr (Body None))"
  have stale: "vehiclesCache populated = [] \<or>
      60000 < clock ?c62 (trace populated) - lastVehicleFetch populated"
    by (simp add: example_defs)
  have held: "\<not> ((\<not> truthy (accessToken populated) \<or>
        js_ge (clock ?c62 (trace populated @ [Call_getVehicles])) (tokenExpiration populated)) \<and>
      truthy (TESLA_CLIENT_ID ?c62) \<and> truthy (TESLA_CLIENT_SECRET ?c62) \<and>
      truthy (TESLA_REFRESH_TOKEN ?c62))"
    by (simp add: example_defs)
  have tok: "fst (getAccessToken ?c62 (populated\<lparr>trace := trace populated @ [Call_getVehicles]\<rparr>))
      = Inr ''tok''"
    by (simp add: service_defs example_defs)
  have reg: "isRegistered populated"
    by (simp add: populated_def)
  have fresh: "vehiclesCache populated \<noteq> [] \<and>
      clock ?c (trace populated) - lastVehicleFetch populated \<le> 60000"
    by (simp add: mock_def populated_def)
  have shown: "debug_text (vehiclesCache populated) =
      ''Found 1 vehicles:'' @ newline @ newline @
      ''Vehicle: Car'' @ newline @ ''- id: 1'' @ newline @ ''- vehicle_id: 12345'' @ newline @
      ''- vin: 5YJ3E1EA7KF000001'' @ newline @ ''- state: online''"
    by (simp add: debug_text_def debugInfo_def or_else_def print_defs populated_def car_def)
  note inst = debug_vehicles_reads_through_cache [of None ?c populated]
  have calls: "list_calls (snd (CallTool ''debug_vehicles'' None ?c populated)) = list_calls populated"
    using inst [THEN conjunct2, THEN conjunct2, THEN conjunct1] fresh by simp
  have served: "CallTool ''debug_vehicles'' None ?c populated =
      (Inr (debug_text (vehiclesCache populated)), populated)"
    using inst [THEN conjunct2, THEN conjunct2, THEN conjunct2, THEN conjunct1] fresh by blast
  have quiet: "requests (trace (snd (CallTool ''debug_vehicles'' None ?c populated))) =
      requests (trace populated)"
    using served by simp
  have sent: "requests (trace (snd (CallTool ''debug_vehicles'' None ?c62 populated))) =
      requests (trace populated) @ [GET_vehicles ''tok'']"
    using debug_vehicles_reads_through_cache [of None ?c62 populated,
        THEN conjunct2, THEN conjunct2, THEN conjunct2, THEN conjunct2, THEN conjunct2]
    unfolding if_P [OF stale] if_not_P [OF held] tok by (simp add: reg)
  show ?thesis
    using calls served shown quiet sent by simp
qed

text \<open>
  C8 as stated fails: in a registered process that has just started the cache is empty, so
  the tool calls the service, a token request and a list request are sent, and the cache and
  the instant of the last fetch change.
\<close>

theorem debug_vehicles_refreshes_counterexample:
  "vehiclesCache (startup True) = [] \<and> lastVehicleFetch (startup True) = 0 \<and>
   list_calls (startup True) = 0 \<and>
   vehiclesCache (snd (CallTool ''debug_vehicles'' None
      (mock 2000 (token_for 3600) (Inr (Body (Some [car]))) (Inr (Body None))) (startup True))) = [car] \<and>
   lastVehicleFetch (snd (CallTool ''debug_vehicles'' None
      (mock 2000 (token_for 3600) (Inr (Body (Some [car]))) (Inr (Body None))) (startup True))) = 2000 \<and>
   list_calls (snd (CallTool ''debug_vehicles'' None
      (mock 2000 (token_for 3600) (Inr (Body (Some [car]))) (Inr (Body None))) (startup True))) = 1 \<and>
   requests (trace (snd (CallTool ''debug_vehicles'' None
      (mock 2000 (token_for 3600) (Inr (Body (Some [car]))) (Inr (Body None))) (startup True)))) =
     [POST_token ''client'' ''secret'' ''refresh'', GET_vehicles ''tok'']"
  by (simp add: service_defs tool_defs list_calls_def example_defs)

section \<open>Resources and the list of tools\<close>

text \<open>
  C9, as the code has it. Listing the resources never raises. It reads the cache under the
  freshness policy and returns one descriptor for each vehicle of the cache as it is after
  that read, in order: the URI is \<^verbatim>\<open>tesla://\<close> followed by the vehicle's \<^verbatim>\<open>id\<close>, the MIME
  type is \<^verbatim>\<open>application/json\<close>, and the name is the vehicle's display name, or
  \<^verbatim>\<open>Tesla (VIN)\<close> when the display name is empty. With an empty cache and a failing fetch
  the list is empty; with a cache of one vehicle that is not older than 60 seconds it is the
  one descriptor of that vehicle.
\<close>

theorem ListResources_descriptors:
  "fst (ListResources c w) = Inr (map resource_of (vehiclesCache (snd (ListResources c w)))) \<and>
   snd (ListResources c w) = snd (getVehicles False c w) \<and>
   uri (resource_of v) = ''tesla://'' @ id_v v \<and>
   mimeType (resource_of v) = ''application/json'' \<and>
   name (resource_of v) =
     (if display_name v = [] then ''Tesla ('' @ vin v @ '')'' else display_name v) \<and>
   (vehiclesCache w = [] \<and> fst (TeslaService_getVehicles c w) = Inl e \<longrightarrow>
      fst (ListResources c w) = Inr []) \<and>
   (vehiclesCache w = [v] \<and> clock c (trace w) - lastVehicleFetch w \<le> 60000 \<longrightarrow>
      fst (ListResources c w) = Inr [resource_of v])"
proof -
  have res: "ListResources c w =
      (Inr (map resource_of (fst (getVehicles False c w))), snd (getVehicles False c w))"
    by (simp add: ListResources_def case_prod_beta)
  have cached: "fst (ListResources c w) =
      Inr (map resource_of (vehiclesCache (snd (ListResources c w))))"
    using getVehicles_returns_cache [of False c w] by (simp add: res)
  have descriptor: "uri (resource_of v) = ''tesla://'' @ id_v v \<and>
      mimeType (resource_of v) = ''application/json'' \<and>
      name (resource_of v) =
        (if display_name v = [] then ''Tesla ('' @ vin v @ '')'' else display_name v)"
    by (simp add: resource_of_def or_else_def)
  have none: "fst (ListResources c w) = Inr []"
    if empty: "vehiclesCache w = []" and fails: "fst (TeslaService_getVehicles c w) = Inl e"
  proof -
    obtain w1 where "TeslaService_getVehicles c w = (Inl e, w1)"
      using fails by (cases "TeslaService_getVehicles c w") simp
    moreover have "needs_fetch False c w"
      using empty by (simp add: needs_fetch_def)
    ultimately have "getVehicles False c w = (vehiclesCache w, w1)"
      by (rule getVehicles_failed [rotated])
    then show ?thesis using empty by (simp add: res)
  qed
  have one: "fst (ListResources c w) = Inr [resource_of v]"
    if "vehiclesCache w = [v]" and "clock c (trace w) - lastVehicleFetch w \<le> 60000"
  proof -
    have "\<not> needs_fetch False c w"
      using that by (simp add: needs_fetch_def CACHE_TTL_def)
    then show ?thesis
      using that(1) by (simp add: res getVehicles_fresh)
  qed
  show ?thesis
    using res cached descriptor none one by simp
qed

theorem ListResources_descriptors_witness:
  "fst (ListResources (mock 2000 (token_for 3600) (Inr (Body None)) (Inr (Body None))) populated) =
     Inr [\<lparr>uri = ''tesla://1'', mimeType = ''application/json'', name = ''Car'',
           description = ''Tesla vehicle: Car (VIN: 5YJ3E1EA7KF000001)''\<rparr>] \<and>
   fst (ListResources (mock 2000 (token_for 3600) (Inl (status_error 500 ''down'')) (Inr (Body None)))
          (startup True)) = Inr []"
proof -
  let ?c = "mock 2000 (token_for 3600) (Inr (Body None)) (Inr (Body None))"
  let ?d = "mock 2000 (token_for 3600) (Inl (status_error 500 ''down'')) (Inr (Body None))"
  have fresh: "vehiclesCache populated = [car] \<and>
      clock ?c (trace populated) - lastVehicleFetch populated \<le> 60000"
    by (simp add: mock_def populated_def)
  have failing: "vehiclesCache (startup True) = [] \<and>
      fst (TeslaService_getVehicles ?d (startup True)) = Inl Failed_to_fetch_vehicles"
    by (simp add: service_defs example_defs)
  have descriptor: "resource_of car =
      \<lparr>uri = ''tesla://1'', mimeType = ''application/json'', name = ''Car'',
       description = ''Tesla vehicle: Car (VIN: 5YJ3E1EA7KF000001)''\<rparr>"
    by (simp add: resource_of_def or_else_def car_def)
  note first = ListResources_descriptors [of ?c populated car Failed_to_fetch_vehicles]
  note second = ListResources_descriptors [of ?d "startup True" car Failed_to_fetch_vehicles]
  have a: "fst (ListResources ?c populated) = Inr [resource_of car]"
    using first fresh by blast
  have b: "fst (ListResources ?d (startup True)) = Inr []"
    using second failing by blast
  show ?thesis
    using a b descriptor by simp
qed

text \<open>
  C9 as stated fails for a vehicle without a display name: its descriptor is named after
  the VIN.
\<close>

theorem ListResources_unnamed_counterexample:
  "display_name unnamed = [] \<and>
   fst (ListResources (mock 2000 (token_for 3600) (Inr (Body None)) (Inr (Body None)))
          (populated\<lparr>vehiclesCache := [unnamed]\<rparr>)) =
     Inr [\<lparr>uri = ''tesla://3'', mimeType = ''application/json'', name = ''Tesla (VIN3)'',
           description = ''Tesla vehicle: Unknown (VIN: VIN3)''\<rparr>]"
  by (simp add: service_defs tool_defs example_defs)

text \<open>
  C10. Listing the tools reads the cache under the freshness policy. When that read yields no
  vehicle, the list of tools is empty; otherwise it is the three tools \<^verbatim>\<open>wake_up\<close>,
  \<^verbatim>\<open>refresh_vehicles\<close> and \<^verbatim>\<open>debug_vehicles\<close>. So with an empty cache, as long as the
  service fails or answers with no vehicle, no tool is advertised and the cache stays empty.
\<close>

theorem ListTools_empty_without_vehicles:
  "(fst (getVehicles False c w) = [] \<longrightarrow> fst (ListTools c w) = Inr []) \<and>
   (fst (getVehicles False c w) \<noteq> [] \<longrightarrow>
      (\<exists>ts. fst (ListTools c w) = Inr ts \<and>
            map tool_name ts = [''wake_up'', ''refresh_vehicles'', ''debug_vehicles''])) \<and>
   snd (ListTools c w) = snd (getVehicles False c w) \<and>
   (vehiclesCache w = [] \<and> (\<forall>vs. fst (TeslaService_getVehicles c w) = Inr vs \<longrightarrow> vs = []) \<longrightarrow>
      fst (ListTools c w) = Inr [] \<and> vehiclesCache (snd (ListTools c w)) = [])"
proof -
  have res: "ListTools c w =
      (if fst (getVehicles False c w) = [] then Inr [] else Inr tools, snd (getVehicles False c w))"
    by (simp add: ListTools_def case_prod_beta)
  have names: "map tool_name tools = [''wake_up'', ''refresh_vehicles'', ''debug_vehicles'']"
    by (simp add: tools_def)
  have still_empty: "fst (getVehicles False c w) = [] \<and> vehiclesCache (snd (getVehicles False c w)) = []"
    if "vehiclesCache w = []" and "\<forall>vs. fst (TeslaService_getVehicles c w) = Inr vs \<longrightarrow> vs = []"
  proof (cases False c w rule: getVehicles_cases)
    case fresh
    then show ?thesis using that(1) by simp
  next
    case (fetched vs w1)
    then have "vs = []" using that(2) by simp
    then show ?thesis using fetched by simp
  next
    case (failed e w1)
    then show ?thesis
      using that(1) TeslaService_getVehicles_frame [of c w] by simp
  qed
  show ?thesis
    using names still_empty by (auto simp add: res)
qed

theorem ListTools_empty_without_vehicles_witness:
  "fst (ListTools (mock 2000 (token_for 3600) (Inl (status_error 500 ''down'')) (Inr (Body None)))
          (startup True)) = Inr [] \<and>
   fst (ListTools (mock 2000 (token_for 3600) (Inr (Body (Some []))) (Inr (Body None))) (startup True)) = Inr [] \<and>
   fst (ListTools (mock 2000 (token_for 3600) (Inr (Body None)) (Inr (Body None))) populated) = Inr tools"
proof -
  let ?down = "mock 2000 (token_for 3600) (Inl (status_error 500 ''down'')) (Inr (Body None))"
  let ?none = "mock 2000 (token_for 3600) (Inr (Body (Some []))) (Inr (Body None))"
  let ?c = "mock 2000 (token_for 3600) (Inr (Body None)) (Inr (Body None))"
  have r1: "fst (TeslaService_getVehicles ?down (startup True)) = Inl Failed_to_fetch_vehicles"
    by (simp add: service_defs example_defs)
  have r2: "fst (TeslaService_getVehicles ?none (startup True)) = Inr []"
    by (simp add: service_defs example_defs)
  have e: "vehiclesCache (startup True) = []"
    by (simp add: startup_def)
  have a: "fst (ListTools ?down (startup True)) = Inr []"
    using ListTools_empty_without_vehicles [of ?down "startup True"] r1 e by simp
  have b: "fst (ListTools ?none (startup True)) = Inr []"
    using ListTools_empty_without_vehicles [of ?none "startup True"] r2 e by simp
  have "fst (getVehicles False ?c populated) \<noteq> []"
    by (simp add: populated_fresh)
  then have "\<exists>ts. fst (ListTools ?c populated) = Inr ts \<and>
      map tool_name ts = [''wake_up'', ''refresh_vehicles'', ''debug_vehicles'']"
    using ListTools_empty_without_vehicles [of ?c populated] by blast
  then have c: "fst (ListTools ?c populated) = Inr tools"
    by (auto simp add: ListTools_def case_prod_beta populated_fresh)
  show ?thesis
    using a b c by simp
qed

end
